theory Spec2Isabelle
  imports
    Complex_Main
    "HOL-Library.Char_ord"
    "HOL-Library.List_Lexorder"
    "HOL-Library.Product_Lexorder"
begin

section \<open>The activity feed: data model\<close>

text \<open>
  Source: \<^verbatim>\<open>backend/core/activity_feed_manager.py\<close>. The three string enums are
  datatypes with the members in the order of the source.
\<close>

datatype ActivityType =
    INSIGHT_DISCOVERED | CRITICAL_ALERT | CUSTOM_ALERT | SOURCE_CRAWLED | DAILY_SUMMARY
  | FOCUS_MODE | SOURCE_ADDED | USER_SEARCH | SYSTEM_UPDATE | CRAWL_STARTED
  | CRAWL_COMPLETED | LLM_ANALYSIS

datatype ActivityPriority = LOW | NORMAL | HIGH | URGENT | CRITICAL

datatype ActivitySource = SYSTEM | USER | SCHEDULER | MCP | LLM | CRAWLER

text \<open>
  The dataclass \<^verbatim>\<open>ActivityItem\<close>. A \<^verbatim>\<open>datetime\<close> is the number of microseconds
  since the epoch (the resolution of Python's \<^verbatim>\<open>datetime\<close>), an unbounded \<open>int\<close>.
  \<^verbatim>\<open>impact_score\<close> is a Python float, modelled as a real number: rounding of the
  floating-point sum is outside the model. \<^verbatim>\<open>details\<close> is an opaque dictionary that
  the manager only stores, kept as an association list. \<^verbatim>\<open>tags\<close> and
  \<^verbatim>\<open>tech_areas\<close> are lists: the only two places that build an \<^verbatim>\<open>ActivityItem\<close>
  (\<^verbatim>\<open>add_activity\<close>, with \<^verbatim>\<open>tags or []\<close>, and \<^verbatim>\<open>_deserialize_activity\<close> of such
  an item) never leave them \<^verbatim>\<open>None\<close>. The fields \<^verbatim>\<open>id\<close> and \<^verbatim>\<open>type\<close> are
  \<open>item_id\<close> and \<open>atype\<close> here.
\<close>

record ActivityItem =
  item_id :: string
  atype :: ActivityType
  priority :: ActivityPriority
  source :: ActivitySource
  title :: string
  description :: string
  details :: "(string \<times> string) list"
  timestamp :: int
  user_id :: "string option"
  source_name :: "string option"
  url :: "string option"
  tags :: "string list"
  tech_areas :: "string list"
  impact_score :: real
  read :: bool
  bookmarked :: bool

section \<open>Filtering\<close>

text \<open>
  \<^verbatim>\<open>_filter_activities\<close>. An optional list argument is tested by truthiness
  (\<^verbatim>\<open>if activity_types:\<close>), so \<^verbatim>\<open>None\<close> and the empty list both leave the dimension
  unfiltered; so does the empty string for \<^verbatim>\<open>user_id\<close>. A \<^verbatim>\<open>datetime\<close> is always
  truthy, so \<^verbatim>\<open>since\<close> filters whenever it is not \<^verbatim>\<open>None\<close>. The filters are
  applied in the order of the source.
\<close>

definition filter_activities ::
  "ActivityItem list \<Rightarrow> ActivityType list option \<Rightarrow> ActivityPriority list option \<Rightarrow>
   ActivitySource list option \<Rightarrow> string option \<Rightarrow> string list option \<Rightarrow> int option \<Rightarrow>
   bool \<Rightarrow> ActivityItem list" where
  "filter_activities activities activity_types priorities sources uid areas since include_system =
    (let filtered = activities;
         filtered = (case since of
             Some t \<Rightarrow> filter (\<lambda>a. timestamp a \<ge> t) filtered
           | None \<Rightarrow> filtered);
         filtered = (case activity_types of
             Some ts \<Rightarrow> if ts \<noteq> [] then filter (\<lambda>a. atype a \<in> set ts) filtered else filtered
           | None \<Rightarrow> filtered);
         filtered = (case priorities of
             Some ps \<Rightarrow> if ps \<noteq> [] then filter (\<lambda>a. priority a \<in> set ps) filtered else filtered
           | None \<Rightarrow> filtered);
         filtered = (case sources of
             Some ss \<Rightarrow> if ss \<noteq> [] then filter (\<lambda>a. source a \<in> set ss) filtered else filtered
           | None \<Rightarrow> filtered);
         filtered = (case uid of
             Some u \<Rightarrow> if u \<noteq> [] then filter (\<lambda>a. user_id a = Some u \<or> user_id a = None) filtered
                       else filtered
           | None \<Rightarrow> filtered);
         filtered = (case areas of
             Some ars \<Rightarrow> if ars \<noteq> []
                         then filter (\<lambda>a. list_ex (\<lambda>area. area \<in> set (tech_areas a)) ars) filtered
                         else filtered
           | None \<Rightarrow> filtered);
         filtered = (if \<not> include_system then filter (\<lambda>a. source a \<noteq> SYSTEM) filtered
                     else filtered)
     in filtered)"

text \<open>
  The values given in one dimension: an absent or empty argument gives no value and
  leaves the dimension open.
\<close>

definition given :: "'a list option \<Rightarrow> 'a list" where
  "given xs = (case xs of None \<Rightarrow> [] | Some l \<Rightarrow> l)"

section \<open>Python containers and exceptions\<close>

text \<open>
  The exceptions the modelled code can meet: a Redis call on an unreachable server, and
  a value of the wrong shape read back from it.
\<close>

datatype py_exception = ConnectionError | TypeError

text \<open>
  A \<^verbatim>\<open>dict\<close> is an association list in insertion order with at most one entry for a
  key: it can be enumerated, as \<^verbatim>\<open>KEYS\<close> and \<^verbatim>\<open>len\<close> need. Assignment to a key
  that is present keeps its position.
\<close>

definition dict_get :: "('k \<times> 'v) list \<Rightarrow> 'k \<Rightarrow> 'v option" where
  "dict_get d k = map_of d k"

definition dict_has :: "('k \<times> 'v) list \<Rightarrow> 'k \<Rightarrow> bool" where
  "dict_has d k = (map_of d k \<noteq> None)"

definition dict_set :: "'k \<Rightarrow> 'v \<Rightarrow> ('k \<times> 'v) list \<Rightarrow> ('k \<times> 'v) list" where
  "dict_set k v d =
     (if dict_has d k then map (\<lambda>e. if fst e = k then (k, v) else e) d else d @ [(k, v)])"

definition dict_del :: "'k \<Rightarrow> ('k \<times> 'v) list \<Rightarrow> ('k \<times> 'v) list" where
  "dict_del k d = filter (\<lambda>e. fst e \<noteq> k) d"

text \<open>A \<^verbatim>\<open>set\<close> is a duplicate-free list; it is iterated in list order.\<close>

definition set_add :: "'a \<Rightarrow> 'a list \<Rightarrow> 'a list" where
  "set_add x xs = (if x \<in> set xs then xs else xs @ [x])"

definition set_discard :: "'a \<Rightarrow> 'a list \<Rightarrow> 'a list" where
  "set_discard x xs = filter (\<lambda>y. y \<noteq> x) xs"

text \<open>Decimal rendering of an integer, as an f-string does.\<close>

definition digit :: "nat \<Rightarrow> char" where
  "digit n = ''0123456789'' ! (n mod 10)"

fun digits :: "nat \<Rightarrow> string" where
  "digits n = (if n < 10 then [digit n] else digits (n div 10) @ [digit (n mod 10)])"

declare digits.simps [simp del]

definition str_int :: "int \<Rightarrow> string" where
  "str_int i = (if i < 0 then CHR ''-'' # digits (nat (- i)) else digits (nat i))"

section \<open>The Redis server and its client\<close>

text \<open>
  Source: \<^verbatim>\<open>backend/database/redis_client.py\<close> and the calls the feed manager makes
  on the underlying \<^verbatim>\<open>redis.asyncio\<close> connection. The server is outside the
  repository; its model follows the documented behaviour of the commands used:
  a key space of values with an optional time to live, and the sorted set
  \<^verbatim>\<open>activity:sorted:global\<close>, which Redis keeps ordered by score and, for equal scores,
  by member in byte order. The sorted set is the ascending list of (score, member)
  pairs. A server that cannot be reached makes every command raise. The passing of
  time, and with it expiry, is outside the model: the time to live is only recorded.
  The JSON encoding of a stored value and its decoding are inverse to each other on the
  values stored here, so a value is stored as it is.
\<close>

datatype stat_value = SInt int | STime int

datatype rvalue =
    RActivity ActivityItem
  | RString string
  | RStats "(string \<times> stat_value) list"

record redis_server =
  reachable :: bool
  store :: "(string \<times> rvalue \<times> int option) list"
  sorted_global :: "(int \<times> string) list"
  sorted_global_ttl :: "int option"

definition raw_set :: "string \<Rightarrow> rvalue \<Rightarrow> int option \<Rightarrow> redis_server \<Rightarrow> py_exception + redis_server" where
  "raw_set k v ex r =
     (if reachable r then Inr (r\<lparr>store := dict_set k (v, ex) (store r)\<rparr>) else Inl ConnectionError)"

definition raw_get :: "string \<Rightarrow> redis_server \<Rightarrow> py_exception + rvalue option" where
  "raw_get k r =
     (if reachable r then Inr (map_option fst (dict_get (store r) k)) else Inl ConnectionError)"

definition raw_delete :: "string \<Rightarrow> redis_server \<Rightarrow> py_exception + (nat \<times> redis_server)" where
  "raw_delete k r =
     (if reachable r
      then Inr (if dict_has (store r) k then 1 else 0, r\<lparr>store := dict_del k (store r)\<rparr>)
      else Inl ConnectionError)"

definition raw_exists :: "string \<Rightarrow> redis_server \<Rightarrow> py_exception + nat" where
  "raw_exists k r =
     (if reachable r then Inr (if dict_has (store r) k then 1 else 0) else Inl ConnectionError)"

text \<open>
  \<^verbatim>\<open>KEYS prefix*\<close>: the keys that start with the prefix (the only pattern the feed
  manager uses ends in a single star).
\<close>

definition raw_keys :: "string \<Rightarrow> redis_server \<Rightarrow> py_exception + string list" where
  "raw_keys pre r =
     (if reachable r then Inr (filter (\<lambda>k. take (length pre) k = pre) (map fst (store r)))
      else Inl ConnectionError)"

text \<open>\<^verbatim>\<open>ZADD key {member: score}\<close>: a member that is present moves to its new score.\<close>

definition zadd :: "string \<Rightarrow> int \<Rightarrow> (int \<times> string) list \<Rightarrow> (int \<times> string) list" where
  "zadd member score z = insort (score, member) (filter (\<lambda>e. snd e \<noteq> member) z)"

text \<open>
  \<^verbatim>\<open>ZREMRANGEBYRANK key start stop\<close>: ranks count from the lowest score, a negative
  index counts from the end, and an empty range removes nothing.
\<close>

definition zremrangebyrank :: "int \<Rightarrow> int \<Rightarrow> (int \<times> string) list \<Rightarrow> (int \<times> string) list" where
  "zremrangebyrank start stop z =
     (let llen = int (length z);
          start1 = (if start < 0 then llen + start else start);
          stop1 = (if stop < 0 then llen + stop else stop);
          start2 = (if start1 < 0 then 0 else start1)
      in if start2 > stop1 \<or> start2 \<ge> llen then z
         else take (nat start2) z @ drop (nat (min stop1 (llen - 1)) + 1) z)"

text \<open>
  \<^verbatim>\<open>ZREVRANGE key start stop\<close>: the entries from the highest score down; without
  \<^verbatim>\<open>WITHSCORES\<close> the reply holds the members alone.
\<close>

definition zrevrange_withscores :: "int \<Rightarrow> int \<Rightarrow> (int \<times> string) list \<Rightarrow> (int \<times> string) list" where
  "zrevrange_withscores start stop z =
     (let llen = int (length z);
          start1 = (if start < 0 then llen + start else start);
          stop1 = (if stop < 0 then llen + stop else stop);
          start2 = (if start1 < 0 then 0 else start1)
      in if start2 > stop1 \<or> start2 \<ge> llen then []
         else take (nat (min stop1 (llen - 1) - start2 + 1)) (drop (nat start2) (rev z)))"

definition zrevrange :: "int \<Rightarrow> int \<Rightarrow> (int \<times> string) list \<Rightarrow> string list" where
  "zrevrange start stop z = map snd (zrevrange_withscores start stop z)"

definition raw_zadd :: "string \<Rightarrow> int \<Rightarrow> redis_server \<Rightarrow> py_exception + redis_server" where
  "raw_zadd member score r =
     (if reachable r then Inr (r\<lparr>sorted_global := zadd member score (sorted_global r)\<rparr>)
      else Inl ConnectionError)"

definition raw_zremrangebyrank :: "int \<Rightarrow> int \<Rightarrow> redis_server \<Rightarrow> py_exception + redis_server" where
  "raw_zremrangebyrank start stop r =
     (if reachable r
      then Inr (r\<lparr>sorted_global := zremrangebyrank start stop (sorted_global r)\<rparr>)
      else Inl ConnectionError)"

definition raw_expire :: "int \<Rightarrow> redis_server \<Rightarrow> py_exception + redis_server" where
  "raw_expire seconds r =
     (if reachable r
      then Inr (if sorted_global r = [] then r else r\<lparr>sorted_global_ttl := Some seconds\<rparr>)
      else Inl ConnectionError)"

definition raw_zrevrange :: "int \<Rightarrow> int \<Rightarrow> redis_server \<Rightarrow> py_exception + string list" where
  "raw_zrevrange start stop r =
     (if reachable r then Inr (zrevrange start stop (sorted_global r)) else Inl ConnectionError)"

text \<open>
  The methods of \<^verbatim>\<open>RedisClient\<close> wrap a command in \<^verbatim>\<open>try\<close>/\<^verbatim>\<open>except Exception\<close>,
  log the error and return \<^verbatim>\<open>False\<close> or \<^verbatim>\<open>None\<close>: they never raise.
\<close>

definition client_set :: "string \<Rightarrow> rvalue \<Rightarrow> int option \<Rightarrow> redis_server \<Rightarrow> bool \<times> redis_server" where
  "client_set k v expire r = (case raw_set k v expire r of Inr r' \<Rightarrow> (True, r') | Inl e \<Rightarrow> (False, r))"

definition client_get :: "string \<Rightarrow> redis_server \<Rightarrow> rvalue option" where
  "client_get k r = (case raw_get k r of Inr v \<Rightarrow> v | Inl e \<Rightarrow> None)"

definition client_delete :: "string \<Rightarrow> redis_server \<Rightarrow> bool \<times> redis_server" where
  "client_delete k r =
     (case raw_delete k r of Inr (n, r') \<Rightarrow> (n > 0, r') | Inl e \<Rightarrow> (False, r))"

definition client_exists :: "string \<Rightarrow> redis_server \<Rightarrow> bool" where
  "client_exists k r = (case raw_exists k r of Inr n \<Rightarrow> n > 0 | Inl e \<Rightarrow> False)"

section \<open>The feed manager\<close>

text \<open>
  \<^verbatim>\<open>ActivityFeedManager\<close>. The objects of \<^verbatim>\<open>recent_activities\<close> and of
  \<^verbatim>\<open>activity_cache\<close> are shared and mutated in place (\<^verbatim>\<open>activity.read = True\<close>), so
  the items live in a heap and both containers hold references. A reference is an
  index into the heap; an object is never freed, and a new one is appended.
\<close>

record ActivityFeedManager =
  redis :: redis_server
  heap :: "ActivityItem list"
  recent_activities :: "nat list"
  activity_cache :: "(string \<times> nat) list"

definition max_activities :: nat where "max_activities = 1000"
definition max_activities_redis :: int where "max_activities_redis = 5000"
definition activity_ttl :: int where "activity_ttl = 30 * 24 * 3600"

definition alloc :: "ActivityItem \<Rightarrow> ActivityItem list \<Rightarrow> nat \<times> ActivityItem list" where
  "alloc a h = (length h, h @ [a])"

definition deref :: "ActivityItem list \<Rightarrow> nat \<Rightarrow> ActivityItem option" where
  "deref h ref = (if ref < length h then Some (h ! ref) else None)"

definition heap_modify :: "nat \<Rightarrow> (ActivityItem \<Rightarrow> ActivityItem) \<Rightarrow> ActivityItem list \<Rightarrow> ActivityItem list" where
  "heap_modify ref f h = (if ref < length h then h[ref := f (h ! ref)] else h)"

text \<open>The items behind a list of references (a reference of the program is never dangling).\<close>

definition objects :: "ActivityItem list \<Rightarrow> nat list \<Rightarrow> ActivityItem list" where
  "objects h refs = List.map_filter (deref h) refs"

definition data_key :: "string \<Rightarrow> string" where
  "data_key activity_id = ''activity:data:'' @ activity_id"

definition bookmark_key :: "string \<Rightarrow> string \<Rightarrow> string" where
  "bookmark_key uid activity_id = ''activity:bookmarks:'' @ uid @ '':'' @ activity_id"

text \<open>
  The score of the sorted list, \<^verbatim>\<open>int(activity.timestamp.timestamp() * 1000)\<close>: the
  time in whole milliseconds, truncated towards zero. The product is computed exactly
  here; the rounding of the floating-point product is outside the model.
\<close>

definition ms_score :: "int \<Rightarrow> int" where
  "ms_score t = (if 0 \<le> t then t div 1000 else - ((- t) div 1000))"

text \<open>
  \<^verbatim>\<open>_add_to_sorted_list\<close>: insert, trim to the newest \<^verbatim>\<open>max_activities_redis\<close>,
  refresh the time to live. An exception ends the method at the command that raised it
  and is logged there.
\<close>

definition add_to_sorted_list :: "ActivityItem \<Rightarrow> redis_server \<Rightarrow> redis_server" where
  "add_to_sorted_list activity r =
     (case raw_zadd (item_id activity) (ms_score (timestamp activity)) r of
        Inl e \<Rightarrow> r
      | Inr r1 \<Rightarrow>
         (case raw_zremrangebyrank 0 (- (max_activities_redis + 1)) r1 of
            Inl e \<Rightarrow> r1
          | Inr r2 \<Rightarrow>
             (case raw_expire activity_ttl r2 of Inl e \<Rightarrow> r2 | Inr r3 \<Rightarrow> r3)))"

text \<open>
  \<^verbatim>\<open>_save_activity_to_redis\<close>: the payload under its key, then the sorted list. The
  result of \<^verbatim>\<open>RedisClient.set\<close> is not looked at.
\<close>

definition save_activity_to_redis :: "ActivityItem \<Rightarrow> redis_server \<Rightarrow> redis_server" where
  "save_activity_to_redis activity r =
     add_to_sorted_list activity
       (snd (client_set (data_key (item_id activity)) (RActivity activity) (Some activity_ttl) r))"

text \<open>The \<^verbatim>\<open>.value\<close> of the enum members.\<close>

fun type_value :: "ActivityType \<Rightarrow> string" where
  "type_value INSIGHT_DISCOVERED = ''insight_discovered''"
| "type_value CRITICAL_ALERT = ''critical_alert''"
| "type_value CUSTOM_ALERT = ''custom_alert''"
| "type_value SOURCE_CRAWLED = ''source_crawled''"
| "type_value DAILY_SUMMARY = ''daily_summary''"
| "type_value FOCUS_MODE = ''focus_mode''"
| "type_value SOURCE_ADDED = ''source_added''"
| "type_value USER_SEARCH = ''user_search''"
| "type_value SYSTEM_UPDATE = ''system_update''"
| "type_value CRAWL_STARTED = ''crawl_started''"
| "type_value CRAWL_COMPLETED = ''crawl_completed''"
| "type_value LLM_ANALYSIS = ''llm_analysis''"

fun priority_value :: "ActivityPriority \<Rightarrow> string" where
  "priority_value LOW = ''low''"
| "priority_value NORMAL = ''normal''"
| "priority_value HIGH = ''high''"
| "priority_value URGENT = ''urgent''"
| "priority_value CRITICAL = ''critical''"

fun source_value :: "ActivitySource \<Rightarrow> string" where
  "source_value SYSTEM = ''system''"
| "source_value USER = ''user''"
| "source_value SCHEDULER = ''scheduler''"
| "source_value MCP = ''mcp''"
| "source_value LLM = ''llm''"
| "source_value CRAWLER = ''crawler''"

text \<open>
  \<^verbatim>\<open>_update_activity_stats\<close>: the counters under \<^verbatim>\<open>activity:stats:global\<close>. A
  counter that does not hold a number makes the addition raise; every exception is
  logged and the method returns.
\<close>

definition counter_incr :: "string \<Rightarrow> (string \<times> stat_value) list \<Rightarrow> py_exception + (string \<times> stat_value) list" where
  "counter_incr k d =
     (case dict_get d k of
        None \<Rightarrow> Inr (dict_set k (SInt 1) d)
      | Some (SInt n) \<Rightarrow> Inr (dict_set k (SInt (n + 1)) d)
      | Some (STime t) \<Rightarrow> Inl TypeError)"

definition update_activity_stats :: "ActivityItem \<Rightarrow> redis_server \<Rightarrow> redis_server" where
  "update_activity_stats activity r =
     (case (case client_get ''activity:stats:global'' r of
              None \<Rightarrow> Inr []
            | Some (RStats d) \<Rightarrow> Inr d
            | Some other \<Rightarrow> Inl TypeError) of
        Inl e \<Rightarrow> r
      | Inr current_stats \<Rightarrow>
         (case counter_incr ''total_count'' current_stats of
            Inl e \<Rightarrow> r
          | Inr s1 \<Rightarrow>
             (case counter_incr (''type_'' @ type_value (atype activity))
                     (dict_set ''last_activity'' (STime (timestamp activity)) s1) of
                Inl e \<Rightarrow> r
              | Inr s2 \<Rightarrow>
                 (case counter_incr (''priority_'' @ priority_value (priority activity)) s2 of
                    Inl e \<Rightarrow> r
                  | Inr s3 \<Rightarrow>
                      snd (client_set ''activity:stats:global'' (RStats s3) (Some activity_ttl) r)))))"

text \<open>
  The in-memory part of \<^verbatim>\<open>add_activity\<close>: the new object goes to the front of
  \<^verbatim>\<open>recent_activities\<close> and into \<^verbatim>\<open>activity_cache\<close>; beyond \<^verbatim>\<open>max_activities\<close>
  the last object is popped and its id leaves the cache.
\<close>

definition remember :: "ActivityItem \<Rightarrow> ActivityFeedManager \<Rightarrow> ActivityFeedManager" where
  "remember activity m =
     (case alloc activity (heap m) of (ref, h) \<Rightarrow>
        (let recent = ref # recent_activities m;
             cache = dict_set (item_id activity) ref (activity_cache m)
         in if length recent > max_activities
            then m\<lparr>heap := h, recent_activities := butlast recent,
                   activity_cache :=
                     (case deref h (last recent) of
                        Some removed \<Rightarrow> dict_del (item_id removed) cache
                      | None \<Rightarrow> cache)\<rparr>
            else m\<lparr>heap := h, recent_activities := recent, activity_cache := cache\<rparr>))"

text \<open>
  \<^verbatim>\<open>add_activity\<close>. The three readings of the environment are arguments: the
  millisecond clock and the eight hexadecimal digits of the id, and \<^verbatim>\<open>datetime.now()\<close>.
  \<^verbatim>\<open>_broadcast_activity\<close> hands the new item to the two connection registries, reads
  and writes no field of the feed manager and catches every exception; the registries
  are modelled in their own sections. No callee lets an exception out, so the
  \<^verbatim>\<open>except\<close> clause that re-raises is never entered and the result is the new id.
\<close>

definition new_activity ::
  "ActivityType \<Rightarrow> string \<Rightarrow> string \<Rightarrow> (string \<times> string) list option \<Rightarrow> ActivityPriority \<Rightarrow>
   ActivitySource \<Rightarrow> string option \<Rightarrow> string option \<Rightarrow> string option \<Rightarrow> string list option \<Rightarrow>
   string list option \<Rightarrow> real \<Rightarrow> int \<Rightarrow> string \<Rightarrow> int \<Rightarrow> ActivityItem" where
  "new_activity activity_type ttl descr dets prio src uid sname link tgs areas score
     clock_ms hex8 now =
     \<lparr>item_id = ''activity_'' @ str_int clock_ms @ ''_'' @ hex8,
      atype = activity_type, priority = prio, source = src, title = ttl,
      description = descr, details = given dets, timestamp = now, user_id = uid,
      source_name = sname, url = link, tags = given tgs, tech_areas = given areas,
      impact_score = score, read = False, bookmarked = False\<rparr>"

definition add_activity ::
  "ActivityType \<Rightarrow> string \<Rightarrow> string \<Rightarrow> (string \<times> string) list option \<Rightarrow> ActivityPriority \<Rightarrow>
   ActivitySource \<Rightarrow> string option \<Rightarrow> string option \<Rightarrow> string option \<Rightarrow> string list option \<Rightarrow>
   string list option \<Rightarrow> real \<Rightarrow> int \<Rightarrow> string \<Rightarrow> int \<Rightarrow> ActivityFeedManager \<Rightarrow>
   (py_exception + string) \<times> ActivityFeedManager" where
  "add_activity activity_type ttl descr dets prio src uid sname link tgs areas score
     clock_ms hex8 now m =
     (let activity = new_activity activity_type ttl descr dets prio src uid sname link tgs areas
                       score clock_ms hex8 now;
          m1 = remember activity m;
          m2 = m1\<lparr>redis := save_activity_to_redis activity (redis m1)\<rparr>;
          m3 = m2\<lparr>redis := update_activity_stats activity (redis m2)\<rparr>
      in (Inr (item_id activity), m3))"

text \<open>
  \<^verbatim>\<open>get_activity_by_id\<close>: the cached object, else a new object built from the stored
  payload. A stored value that is not an activity makes the decoding raise, which is
  logged and gives \<^verbatim>\<open>None\<close>.
\<close>

definition get_activity_by_id ::
  "string \<Rightarrow> ActivityFeedManager \<Rightarrow> (nat \<times> ActivityItem) option \<times> ActivityFeedManager" where
  "get_activity_by_id activity_id m =
     (case dict_get (activity_cache m) activity_id of
        Some ref \<Rightarrow> (map_option (Pair ref) (deref (heap m) ref), m)
      | None \<Rightarrow>
         (case client_get (data_key activity_id) (redis m) of
            Some (RActivity a) \<Rightarrow>
              (case alloc a (heap m) of (ref, h) \<Rightarrow> (Some (ref, a), m\<lparr>heap := h\<rparr>))
          | Some other \<Rightarrow> (None, m)
          | None \<Rightarrow> (None, m)))"

text \<open>\<^verbatim>\<open>mark_activity_read\<close>. The argument \<^verbatim>\<open>user_id\<close> is not used by the body.\<close>

definition mark_activity_read :: "string \<Rightarrow> string \<Rightarrow> ActivityFeedManager \<Rightarrow> bool \<times> ActivityFeedManager" where
  "mark_activity_read activity_id uid m =
     (case get_activity_by_id activity_id m of
        (None, m1) \<Rightarrow> (False, m1)
      | (Some (ref, activity), m1) \<Rightarrow>
          (True, m1\<lparr>heap := heap_modify ref (\<lambda>a. a\<lparr>read := True\<rparr>) (heap m1),
                    activity_cache := dict_set activity_id ref (activity_cache m1),
                    redis := save_activity_to_redis (activity\<lparr>read := True\<rparr>) (redis m1)\<rparr>))"

text \<open>
  \<^verbatim>\<open>bookmark_activity\<close>: the bookmark of one user is the existence of the key of the
  user and the activity; its value is the time of the activity.
\<close>

definition bookmark_activity :: "string \<Rightarrow> string \<Rightarrow> ActivityFeedManager \<Rightarrow> bool \<times> ActivityFeedManager" where
  "bookmark_activity activity_id uid m =
     (case get_activity_by_id activity_id m of
        (None, m1) \<Rightarrow> (False, m1)
      | (Some (ref, activity), m1) \<Rightarrow>
          (if client_exists (bookmark_key uid activity_id) (redis m1)
           then (True, m1\<lparr>redis := snd (client_delete (bookmark_key uid activity_id) (redis m1)),
                          heap := heap_modify ref (\<lambda>a. a\<lparr>bookmarked := False\<rparr>) (heap m1),
                          activity_cache := dict_set activity_id ref (activity_cache m1)\<rparr>)
           else (True, m1\<lparr>redis := snd (client_set (bookmark_key uid activity_id)
                                          (RString (str_int (timestamp activity)))
                                          (Some activity_ttl) (redis m1)),
                          heap := heap_modify ref (\<lambda>a. a\<lparr>bookmarked := True\<rparr>) (heap m1),
                          activity_cache := dict_set activity_id ref (activity_cache m1)\<rparr>)))"

section \<open>Reading the feed\<close>

text \<open>
  \<^verbatim>\<open>_get_user_bookmarked_ids\<close>: the last segment of every key of the user, as a set.
\<close>

definition last_segment :: "string \<Rightarrow> string" where
  "last_segment k = rev (takeWhile (\<lambda>c. c \<noteq> CHR '':'') (rev k))"

definition get_user_bookmarked_ids :: "string \<Rightarrow> redis_server \<Rightarrow> string list" where
  "get_user_bookmarked_ids uid r =
     (case raw_keys (''activity:bookmarks:'' @ uid @ '':'') r of
        Inr keys \<Rightarrow> remdups (map last_segment keys)
      | Inl e \<Rightarrow> [])"

text \<open>
  The loop of \<^verbatim>\<open>_load_activities_from_redis\<close> over the ids: a missing payload is
  skipped; a payload that does not decode raises.
\<close>

fun load_payloads :: "string list \<Rightarrow> redis_server \<Rightarrow> py_exception + ActivityItem list" where
  "load_payloads [] r = Inr []"
| "load_payloads (i # ids) r =
     (case client_get (data_key i) r of
        None \<Rightarrow> load_payloads ids r
      | Some (RActivity a) \<Rightarrow>
          (case load_payloads ids r of Inl e \<Rightarrow> Inl e | Inr acts \<Rightarrow> Inr (a # acts))
      | Some other \<Rightarrow> Inl TypeError)"

definition load_activities_from_redis ::
  "nat \<Rightarrow> ActivityType list option \<Rightarrow> ActivityPriority list option \<Rightarrow>
   ActivitySource list option \<Rightarrow> string option \<Rightarrow> string list option \<Rightarrow> int option \<Rightarrow>
   bool \<Rightarrow> redis_server \<Rightarrow> ActivityItem list" where
  "load_activities_from_redis limit activity_types priorities sources uid areas since
     include_system r =
     (case raw_zrevrange 0 (int limit * 2) r of
        Inl e \<Rightarrow> []
      | Inr activity_ids \<Rightarrow>
          if activity_ids = [] then []
          else (case load_payloads activity_ids r of
                  Inl e \<Rightarrow> []
                | Inr activities \<Rightarrow>
                    take limit (filter_activities activities activity_types priorities sources
                                  uid areas since include_system)))"

text \<open>
  \<^verbatim>\<open>get_activities\<close>, with \<^verbatim>\<open>limit\<close> and \<^verbatim>\<open>offset\<close> natural numbers (the route
  admits \<^verbatim>\<open>limit\<close> from 1 and \<^verbatim>\<open>offset\<close> from 0). On the in-memory path the filter
  runs over the shared objects and, for a caller with a user id, writes the caller's
  bookmark into the \<^verbatim>\<open>bookmarked\<close> field of each object that passes. The result is the
  list of the items as the caller reads them.
\<close>

definition get_activities ::
  "nat \<Rightarrow> nat \<Rightarrow> ActivityType list option \<Rightarrow> ActivityPriority list option \<Rightarrow>
   ActivitySource list option \<Rightarrow> string option \<Rightarrow> string list option \<Rightarrow> int option \<Rightarrow>
   bool \<Rightarrow> ActivityFeedManager \<Rightarrow> ActivityItem list \<times> ActivityFeedManager" where
  "get_activities limit offset activity_types priorities sources uid areas since include_system m =
     (if offset = 0 \<and> limit \<le> length (recent_activities m)
      then
        (let refs = filter (\<lambda>ref. case deref (heap m) ref of
                       Some a \<Rightarrow> filter_activities [a] activity_types priorities sources uid
                                   areas since include_system \<noteq> []
                     | None \<Rightarrow> False) (recent_activities m);
             h = (if given uid \<noteq> []
                  then fold (\<lambda>ref. heap_modify ref
                          (\<lambda>a. a\<lparr>bookmarked :=
                                  item_id a \<in> set (get_user_bookmarked_ids (given uid) (redis m))\<rparr>))
                        refs (heap m)
                  else heap m)
         in (objects h (take limit refs), m\<lparr>heap := h\<rparr>))
      else
        (let activities = load_activities_from_redis (limit + offset) activity_types priorities
                            sources uid areas since include_system (redis m);
             activities = (if given uid \<noteq> []
                  then map (\<lambda>a. a\<lparr>bookmarked :=
                                  item_id a \<in> set (get_user_bookmarked_ids (given uid) (redis m))\<rparr>)
                         activities
                  else activities)
         in (take limit (drop offset activities), m)))"

section \<open>Statistics\<close>

record ActivityStats =
  total_activities :: nat
  activities_24h :: nat
  activities_by_type :: "(string \<times> nat) list"
  activities_by_priority :: "(string \<times> nat) list"
  avg_impact_score :: real
  most_active_source :: string
  last_activity :: "int option"

text \<open>The counting loop \<^verbatim>\<open>d[k] = d.get(k, 0) + 1\<close> over a list of keys.\<close>

definition count_values :: "string list \<Rightarrow> (string \<times> nat) list" where
  "count_values ks =
     foldl (\<lambda>d k. dict_set k ((case dict_get d k of None \<Rightarrow> 0 | Some n \<Rightarrow> n) + 1) d) [] ks"

text \<open>\<^verbatim>\<open>max(d.items(), key=lambda x: x[1])[0]\<close>: the first key with the largest count.\<close>

definition max_count_key :: "(string \<times> nat) list \<Rightarrow> string" where
  "max_count_key d =
     (case d of [] \<Rightarrow> ''''
      | x # xs \<Rightarrow> fst (foldl (\<lambda>best y. if snd y > snd best then y else best) x xs))"

definition usec_per_hour :: int where "usec_per_hour = 3600 * 1000000"

text \<open>
  \<^verbatim>\<open>get_activity_stats\<close>. The clock is read twice, for the default window of seven
  days and for the last 24 hours.
\<close>

definition get_activity_stats ::
  "int option \<Rightarrow> int \<Rightarrow> int \<Rightarrow> ActivityFeedManager \<Rightarrow> ActivityStats \<times> ActivityFeedManager" where
  "get_activity_stats since now1 now2 m =
     (case get_activities max_activities 0 None None None None None
             (Some (case since of None \<Rightarrow> now1 - 7 * 24 * usec_per_hour | Some t \<Rightarrow> t)) True m of
        (activities, m1) \<Rightarrow>
          (if activities = []
           then (\<lparr>total_activities = 0, activities_24h = 0, activities_by_type = [],
                   activities_by_priority = [], avg_impact_score = 0, most_active_source = '''',
                   last_activity = None\<rparr>, m1)
           else
             (let impact_scores = map impact_score (filter (\<lambda>a. impact_score a > 0) activities)
              in (\<lparr>total_activities = length activities,
                    activities_24h =
                      length (filter (\<lambda>a. timestamp a > now2 - 24 * usec_per_hour) activities),
                    activities_by_type = count_values (map (\<lambda>a. type_value (atype a)) activities),
                    activities_by_priority =
                      count_values (map (\<lambda>a. priority_value (priority a)) activities),
                    avg_impact_score =
                      (if impact_scores \<noteq> []
                       then sum_list impact_scores / real (length impact_scores) else 0),
                    most_active_source =
                      max_count_key (count_values (map (\<lambda>a. source_value (source a)) activities)),
                    last_activity = Some (timestamp (hd activities))\<rparr>, m1))))"

section \<open>Sample values\<close>

definition sample_item ::
  "string \<Rightarrow> ActivityType \<Rightarrow> ActivitySource \<Rightarrow> int \<Rightarrow> string option \<Rightarrow> real \<Rightarrow> ActivityItem" where
  "sample_item i ty src t uid score =
     \<lparr>item_id = i, atype = ty, priority = NORMAL, source = src, title = ''t'',
      description = ''d'', details = [], timestamp = t, user_id = uid, source_name = None,
      url = None, tags = [], tech_areas = [], impact_score = score, read = False,
      bookmarked = False\<rparr>"

definition empty_redis :: "bool \<Rightarrow> redis_server" where
  "empty_redis up = \<lparr>reachable = up, store = [], sorted_global = [], sorted_global_ttl = None\<rparr>"

definition empty_manager :: "bool \<Rightarrow> ActivityFeedManager" where
  "empty_manager up =
     \<lparr>redis = empty_redis up, heap = [], recent_activities = [], activity_cache = []\<rparr>"

section \<open>The states of the feed\<close>

text \<open>
  The states the feed manager reaches from an empty one by its operations, with the
  server going away and coming back between two of them.
\<close>

inductive feed_state :: "ActivityFeedManager \<Rightarrow> bool" where
  start: "feed_state (empty_manager up)"
| added: "feed_state m \<Longrightarrow>
     feed_state (snd (add_activity activity_type ttl descr dets prio src uid sname link tgs
                        areas score clock_ms hex8 now m))"
| marked: "feed_state m \<Longrightarrow> feed_state (snd (mark_activity_read activity_id uid m))"
| bookmarked: "feed_state m \<Longrightarrow> feed_state (snd (bookmark_activity activity_id uid m))"
| listed: "feed_state m \<Longrightarrow>
     feed_state (snd (get_activities limit offset activity_types priorities sources uid areas
                        since include_system m))"
| outage: "feed_state m \<Longrightarrow> feed_state (m\<lparr>redis := (redis m)\<lparr>reachable := up\<rparr>\<rparr>)"

text \<open>The payload stored for an id, whether or not the server can be reached now.\<close>

definition payload :: "redis_server \<Rightarrow> string \<Rightarrow> ActivityItem option" where
  "payload r activity_id =
     (case dict_get (store r) (data_key activity_id) of
        Some (RActivity a, ex) \<Rightarrow> Some a
      | Some other \<Rightarrow> None
      | None \<Rightarrow> None)"

text \<open>
  The index is in the order of the sorted set, and the score of an indexed id is the
  millisecond score of the time of the payload stored for it.
\<close>

definition index_ok :: "redis_server \<Rightarrow> bool" where
  "index_ok r =
     (sorted (sorted_global r) \<and>
      (\<forall>e \<in> set (sorted_global r). \<forall>a. payload r (snd e) = Some a \<longrightarrow>
          fst e = ms_score (timestamp a)))"

text \<open>
  Two appends within one millisecond: the first 100 microseconds after the full
  millisecond, the second 200 microseconds after it, with a smaller random suffix.
\<close>

definition same_ms_feed :: ActivityFeedManager where
  "same_ms_feed =
     snd (add_activity SYSTEM_UPDATE ''second'' ''d'' None NORMAL SYSTEM None None None None None 0
            1000 ''aaaaaaaa'' 1000200
       (snd (add_activity SYSTEM_UPDATE ''first'' ''d'' None NORMAL SYSTEM None None None None None 0
               1000 ''bbbbbbbb'' 1000100 (empty_manager True))))"

text \<open>
  One system activity is appended; then the user alice marks it as read.
\<close>

definition one_item_feed :: ActivityFeedManager where
  "one_item_feed =
     snd (add_activity SYSTEM_UPDATE ''release'' ''d'' None NORMAL SYSTEM None None None None None 0
            1000 ''bbbbbbbb'' 1000100 (empty_manager True))"

definition read_by_alice :: ActivityFeedManager where
  "read_by_alice = snd (mark_activity_read ''activity_1000_bbbbbbbb'' ''alice'' one_item_feed)"

section \<open>The WebSocket manager\<close>

text \<open>
  Source: \<^verbatim>\<open>backend/core/websocket_manager.py\<close>. A message is a JSON object. The
  transport of a connection is outside the repository: \<^verbatim>\<open>send_text\<close> either hands
  the text to the peer or raises, which is the state of the transport here. What the
  peers were sent, and which sends failed, is recorded in the trace \<open>wire\<close>.
\<close>

datatype json =
    JStr string
  | JNum real
  | JTime int
  | JList "string list"
  | JNull
  | JObj "(string \<times> json) list"

datatype transport = Alive | Broken

datatype ws_event =
    Delivered string "(string \<times> json) list"
  | Failed string

record WebSocketConnection =
  websocket :: transport
  ws_user_id :: "string option"
  connection_id :: string
  connected_at :: int
  last_ping :: int
  conn_subscriptions :: "string list"

record WebSocketManager =
  connections :: "(string \<times> WebSocketConnection) list"
  user_connections :: "(string \<times> string list) list"
  subscriptions :: "(string \<times> string list) list"
  cleanup_task :: bool
  wire :: "ws_event list"

text \<open>The members of a topic; a topic without an entry has none.\<close>

definition members_of :: "WebSocketManager \<Rightarrow> string \<Rightarrow> string list" where
  "members_of s topic = given (dict_get (subscriptions s) topic)"

definition connections_of :: "WebSocketManager \<Rightarrow> string \<Rightarrow> string list" where
  "connections_of s uid = given (dict_get (user_connections s) uid)"

text \<open>
  \<^verbatim>\<open>discard\<close> of a connection from the set stored under a key, and removal of the
  key when the set becomes empty; nothing happens when the key is absent.
\<close>

definition discard_member :: "string \<Rightarrow> string \<Rightarrow> (string \<times> string list) list \<Rightarrow> (string \<times> string list) list" where
  "discard_member cid key d =
     (case dict_get d key of
        None \<Rightarrow> d
      | Some members \<Rightarrow>
          if set_discard cid members = [] then dict_del key d
          else dict_set key (set_discard cid members) d)"

definition disconnect :: "string \<Rightarrow> WebSocketManager \<Rightarrow> WebSocketManager" where
  "disconnect cid s =
     (case dict_get (connections s) cid of
        None \<Rightarrow> s
      | Some connection \<Rightarrow>
          s\<lparr>subscriptions := fold (discard_member cid) (conn_subscriptions connection) (subscriptions s),
            user_connections :=
              (case ws_user_id connection of
                 None \<Rightarrow> user_connections s
               | Some u \<Rightarrow> if u \<noteq> [] then discard_member cid u (user_connections s)
                           else user_connections s),
            connections := dict_del cid (connections s),
            cleanup_task := (if dict_del cid (connections s) = [] then False else cleanup_task s)\<rparr>)"

definition subscribe :: "string \<Rightarrow> string \<Rightarrow> WebSocketManager \<Rightarrow> bool \<times> WebSocketManager" where
  "subscribe cid topic s =
     (case dict_get (connections s) cid of
        None \<Rightarrow> (False, s)
      | Some connection \<Rightarrow>
          (True,
           s\<lparr>connections :=
                dict_set cid
                  (connection\<lparr>conn_subscriptions := set_add topic (conn_subscriptions connection)\<rparr>)
                  (connections s),
              subscriptions := dict_set topic (set_add cid (members_of s topic)) (subscriptions s)\<rparr>))"

text \<open>
  \<^verbatim>\<open>_send_to_connection\<close>: the message with the time and the connection id added. A
  send that raises is logged and the connection is disconnected; it is not tried again.
\<close>

definition enhanced_message :: "(string \<times> json) list \<Rightarrow> string \<Rightarrow> int \<Rightarrow> (string \<times> json) list" where
  "enhanced_message message cid now =
     dict_set ''connection_id'' (JStr cid) (dict_set ''timestamp'' (JTime now) message)"

definition send_to_connection ::
  "string \<Rightarrow> (string \<times> json) list \<Rightarrow> int \<Rightarrow> WebSocketManager \<Rightarrow> bool \<times> WebSocketManager" where
  "send_to_connection cid message now s =
     (case dict_get (connections s) cid of
        None \<Rightarrow> (False, s)
      | Some connection \<Rightarrow>
          (case websocket connection of
             Alive \<Rightarrow> (True, s\<lparr>wire := wire s @ [Delivered cid (enhanced_message message cid now)]\<rparr>)
           | Broken \<Rightarrow> (False, disconnect cid (s\<lparr>wire := wire s @ [Failed cid]\<rparr>))))"

text \<open>
  The loop of \<^verbatim>\<open>broadcast_to_topic\<close> over the snapshot of the members, counting the
  sends that succeeded.
\<close>

fun send_each ::
  "string list \<Rightarrow> (string \<times> json) list \<Rightarrow> int \<Rightarrow> nat \<times> WebSocketManager \<Rightarrow> nat \<times> WebSocketManager" where
  "send_each [] message now (sent_count, s) = (sent_count, s)"
| "send_each (cid # cids) message now (sent_count, s) =
     (case send_to_connection cid message now s of
        (True, s1) \<Rightarrow> send_each cids message now (sent_count + 1, s1)
      | (False, s1) \<Rightarrow> send_each cids message now (sent_count, s1))"

definition broadcast_to_topic ::
  "string \<Rightarrow> (string \<times> json) list \<Rightarrow> int \<Rightarrow> WebSocketManager \<Rightarrow> nat \<times> WebSocketManager" where
  "broadcast_to_topic topic message now s =
     (case dict_get (subscriptions s) topic of
        None \<Rightarrow> (0, s)
      | Some connection_ids \<Rightarrow> send_each connection_ids message now (0, s))"

text \<open>
  \<^verbatim>\<open>connect\<close>: the transport is accepted, the connection registered and greeted.
  \<^verbatim>\<open>accept\<close> on a broken transport raises, and nothing catches it.
\<close>

definition connect ::
  "transport \<Rightarrow> string option \<Rightarrow> int \<Rightarrow> string \<Rightarrow> int \<Rightarrow> WebSocketManager \<Rightarrow>
   (py_exception + string) \<times> WebSocketManager" where
  "connect ws uid clock_ms hex8 now s =
     (case ws of
        Broken \<Rightarrow> (Inl ConnectionError, s)
      | Alive \<Rightarrow>
         (let cid = ''ws_'' @ str_int clock_ms @ ''_'' @ hex8;
              s1 = s\<lparr>connections :=
                       dict_set cid \<lparr>websocket = ws, ws_user_id = uid, connection_id = cid,
                                      connected_at = now, last_ping = now,
                                      conn_subscriptions = []\<rparr> (connections s),
                     user_connections :=
                       (if given uid \<noteq> []
                        then dict_set (given uid) (set_add cid (connections_of s (given uid)))
                               (user_connections s)
                        else user_connections s)\<rparr>;
              s2 = (if length (connections s1) = 1 \<and> \<not> cleanup_task s1
                    then s1\<lparr>cleanup_task := True\<rparr> else s1)
          in (Inr cid,
              snd (send_to_connection cid
                     [(''type'', JStr ''connection_established''),
                      (''data'', JObj [(''connection_id'', JStr cid),
                                       (''user_id'', (case uid of None \<Rightarrow> JNull | Some u \<Rightarrow> JStr u)),
                                       (''server_time'', JTime now)])]
                     now s2))))"

text \<open>
  The part of \<^verbatim>\<open>_broadcast_activity\<close> that goes through this manager: the new
  activity as a message to the topic \<^verbatim>\<open>activity_feed\<close>.
\<close>

definition activity_data :: "ActivityItem \<Rightarrow> (string \<times> json) list" where
  "activity_data activity =
     [(''id'', JStr (item_id activity)),
      (''type'', JStr (type_value (atype activity))),
      (''priority'', JStr (priority_value (priority activity))),
      (''source'', JStr (source_value (source activity))),
      (''title'', JStr (title activity)),
      (''description'', JStr (description activity)),
      (''timestamp'', JTime (timestamp activity)),
      (''tech_areas'', JList (tech_areas activity)),
      (''impact_score'', JNum (impact_score activity)),
      (''url'', (case url activity of None \<Rightarrow> JNull | Some u \<Rightarrow> JStr u))]"

definition broadcast_activity_topic :: "ActivityItem \<Rightarrow> int \<Rightarrow> WebSocketManager \<Rightarrow> nat \<times> WebSocketManager" where
  "broadcast_activity_topic activity now s =
     broadcast_to_topic ''activity_feed''
       [(''type'', JStr ''new_activity''), (''data'', JObj (activity_data activity))] now s"

text \<open>
  Every member of a topic, and every connection listed for a user, is a registered
  connection that knows of the membership; the member lists have no duplicate.
\<close>

definition registry_ok :: "WebSocketManager \<Rightarrow> bool" where
  "registry_ok s =
     ((\<forall>topic. distinct (members_of s topic) \<and>
         (\<forall>c \<in> set (members_of s topic).
            \<exists>conn. dict_get (connections s) c = Some conn \<and> topic \<in> set (conn_subscriptions conn))) \<and>
      (\<forall>u. \<forall>c \<in> set (connections_of s u).
            \<exists>conn. dict_get (connections s) c = Some conn \<and> ws_user_id conn = Some u \<and> u \<noteq> []))"

text \<open>Three subscribers of the activity feed; the transport of the second is broken.\<close>

definition sample_connection :: "string \<Rightarrow> transport \<Rightarrow> WebSocketConnection" where
  "sample_connection cid ws =
     \<lparr>websocket = ws, ws_user_id = None, connection_id = cid, connected_at = 0, last_ping = 0,
      conn_subscriptions = [''activity_feed'']\<rparr>"

definition three_subscribers :: WebSocketManager where
  "three_subscribers =
     \<lparr>connections = [(''c1'', sample_connection ''c1'' Alive),
                     (''c2'', sample_connection ''c2'' Broken),
                     (''c3'', sample_connection ''c3'' Alive)],
      user_connections = [],
      subscriptions = [(''activity_feed'', [''c1'', ''c2'', ''c3''])],
      cleanup_task = True,
      wire = []\<rparr>"

section \<open>The connection manager of the dashboard sockets\<close>

text \<open>
  Source: \<^verbatim>\<open>backend/api/routes/websocket.py\<close>, class \<^verbatim>\<open>ConnectionManager\<close>. The
  socket object has the client state that the code tests and a transport as above. A
  message gets its id from \<^verbatim>\<open>uuid4\<close> and its time from the clock when it is built:
  the id is the number of the draw from a supply kept beside the state, the clock is
  read from the state. What each connection was sent is the trace \<open>delivered\<close>.
\<close>

datatype NotificationType =
  NEW_INSIGHT | KPI_UPDATE | TRENDING_THEME | SOURCE_UPDATE | SYSTEM_STATUS | USER_ACTION

datatype WebSocketState = CONNECTING | CONNECTED | DISCONNECTED

























section \<open>Runs of the connection manager\<close>










section \<open>Theorems: containers\<close>

lemma map_of_replace:
  "map_of (map (\<lambda>e. if fst e = k then (k, v) else e) d) k' =
     (if k' = k then map_option (\<lambda>_. v) (map_of d k) else map_of d k')"
  by (induction d) auto

lemma map_of_dict_set: "map_of (dict_set k v d) = (map_of d)(k \<mapsto> v)"
proof (cases "dict_has d k")
  case True
  then show ?thesis
    by (auto simp: dict_set_def dict_has_def map_of_replace fun_eq_iff)
next
  case False
  then show ?thesis
    by (auto simp: dict_set_def dict_has_def map_add_def fun_eq_iff split: option.splits)
qed

lemma dict_get_dict_set: "dict_get (dict_set k v d) k' = (if k' = k then Some v else dict_get d k')"
  by (simp add: dict_get_def map_of_dict_set)

lemma dict_get_dict_del: "dict_get (dict_del k d) k' = (if k' = k then None else dict_get d k')"
  unfolding dict_get_def dict_del_def by (induction d) auto



section \<open>Theorems: filtering\<close>

lemma opt_stage:
  "(case x of Some ts \<Rightarrow> if ts \<noteq> [] then filter (P ts) xs else xs | None \<Rightarrow> xs)
     = filter (\<lambda>a. given x = [] \<or> P (given x) a) xs"
  by (cases x) (simp_all add: given_def)

lemma since_stage:
  "(case since of Some t \<Rightarrow> filter (P t) xs | None \<Rightarrow> xs)
     = filter (\<lambda>a. case since of Some t \<Rightarrow> P t a | None \<Rightarrow> True) xs"
  by (cases since) simp_all

lemma sys_stage: "(if \<not> incl then filter P xs else xs) = filter (\<lambda>a. incl \<or> P a) xs"
  by simp

lemma any_in_iff: "list_ex (\<lambda>area. area \<in> set bs) as = (set as \<inter> set bs \<noteq> {})"
  by (auto simp: list_ex_iff)

lemma filter_activities_char:
  "filter_activities acts tys prs srcs uid areas since incl =
     filter (\<lambda>a. (case since of Some t \<Rightarrow> t \<le> timestamp a | None \<Rightarrow> True)
               \<and> (given tys = [] \<or> atype a \<in> set (given tys))
               \<and> (given prs = [] \<or> priority a \<in> set (given prs))
               \<and> (given srcs = [] \<or> source a \<in> set (given srcs))
               \<and> (given uid = [] \<or> user_id a = Some (given uid) \<or> user_id a = None)
               \<and> (given areas = [] \<or> set (given areas) \<inter> set (tech_areas a) \<noteq> {})
               \<and> (incl \<or> source a \<noteq> SYSTEM)) acts"
  unfolding filter_activities_def
  apply (simp only: opt_stage)
  apply (simp only: since_stage)
  apply (simp only: sys_stage)
  apply (simp only: Let_def filter_filter any_in_iff)
  done



text \<open>
  C9. With a (non-empty) user id the filter keeps, of the activities that pass the
  other dimensions, those of that user and every activity without a user; only the
  activities of another user are dropped.
\<close>

theorem filter_activities_user:
  "u \<noteq> [] \<Longrightarrow>
   filter_activities acts tys prs srcs (Some u) areas since incl =
     filter (\<lambda>a. user_id a = Some u \<or> user_id a = None)
       (filter_activities acts tys prs srcs None areas since incl)"
  unfolding filter_activities_char filter_filter
  by (rule filter_cong) (auto simp: given_def)

theorem filter_activities_user_witness:
  "''bob'' \<noteq> [] \<and>
   filter_activities
     [sample_item ''a'' SYSTEM_UPDATE SYSTEM 10 None 0,
      sample_item ''b'' USER_SEARCH USER 20 (Some ''bob'') 0,
      sample_item ''c'' USER_SEARCH USER 30 (Some ''eve'') 0]
     None None None (Some ''bob'') None None True
   = [sample_item ''a'' SYSTEM_UPDATE SYSTEM 10 None 0,
      sample_item ''b'' USER_SEARCH USER 20 (Some ''bob'') 0]"
proof -
  have ne: "''bob'' \<noteq> []" by simp
  have none: "filter_activities
     [sample_item ''a'' SYSTEM_UPDATE SYSTEM 10 None 0,
      sample_item ''b'' USER_SEARCH USER 20 (Some ''bob'') 0,
      sample_item ''c'' USER_SEARCH USER 30 (Some ''eve'') 0]
     None None None None None None True
   = [sample_item ''a'' SYSTEM_UPDATE SYSTEM 10 None 0,
      sample_item ''b'' USER_SEARCH USER 20 (Some ''bob'') 0,
      sample_item ''c'' USER_SEARCH USER 30 (Some ''eve'') 0]"
    by (simp add: filter_activities_char given_def)
  show ?thesis
    using filter_activities_user [OF ne,
        of "[sample_item ''a'' SYSTEM_UPDATE SYSTEM 10 None 0,
             sample_item ''b'' USER_SEARCH USER 20 (Some ''bob'') 0,
             sample_item ''c'' USER_SEARCH USER 30 (Some ''eve'') 0]"
           None None None None None True]
    unfolding none by (simp add: sample_item_def)
qed

text \<open>
  C10. The average impact score of the statistics is the arithmetic mean of the
  positive scores of the window returned by \<^verbatim>\<open>get_activities\<close>: an activity with a
  score of 0 (or below) counts neither in the sum nor in the number, and the average
  is 0 when no activity of the window has a positive score.
\<close>

theorem avg_impact_score_positive_mean:
  "avg_impact_score (fst (get_activity_stats since now1 now2 m)) =
     (if filter (\<lambda>a. impact_score a > 0)
           (fst (get_activities max_activities 0 None None None None None
              (Some (case since of None \<Rightarrow> now1 - 7 * 24 * usec_per_hour | Some t \<Rightarrow> t))
              True m)) = []
      then 0
      else sum_list (map impact_score (filter (\<lambda>a. impact_score a > 0)
             (fst (get_activities max_activities 0 None None None None None
                (Some (case since of None \<Rightarrow> now1 - 7 * 24 * usec_per_hour | Some t \<Rightarrow> t))
                True m))))
           / real (length (filter (\<lambda>a. impact_score a > 0)
             (fst (get_activities max_activities 0 None None None None None
                (Some (case since of None \<Rightarrow> now1 - 7 * 24 * usec_per_hour | Some t \<Rightarrow> t))
                True m)))))"
  unfolding get_activity_stats_def
  by (cases "get_activities max_activities 0 None None None None None
        (Some (case since of None \<Rightarrow> now1 - 7 * 24 * usec_per_hour | Some t \<Rightarrow> t)) True m")
     (simp add: Let_def)

section \<open>Theorems: the Redis client and the sorted set\<close>

lemma client_set_up:
  "reachable r \<Longrightarrow> client_set k v e r = (True, r\<lparr>store := dict_set k (v, e) (store r)\<rparr>)"
  by (simp add: client_set_def raw_set_def)

lemma client_set_down: "\<not> reachable r \<Longrightarrow> client_set k v e r = (False, r)"
  by (simp add: client_set_def raw_set_def)

lemma client_set_frame:
  "sorted_global (snd (client_set k v e r)) = sorted_global r"
  "sorted_global_ttl (snd (client_set k v e r)) = sorted_global_ttl r"
  "reachable (snd (client_set k v e r)) = reachable r"
  by (simp_all add: client_set_def raw_set_def)

lemma client_set_store:
  "store (snd (client_set k v e r)) =
     (if reachable r then dict_set k (v, e) (store r) else store r)"
  by (simp add: client_set_def raw_set_def)

lemma client_delete_frame:
  "sorted_global (snd (client_delete k r)) = sorted_global r"
  "sorted_global_ttl (snd (client_delete k r)) = sorted_global_ttl r"
  "reachable (snd (client_delete k r)) = reachable r"
  by (simp_all add: client_delete_def raw_delete_def)

lemma client_delete_store:
  "store (snd (client_delete k r)) = (if reachable r then dict_del k (store r) else store r)"
  by (simp add: client_delete_def raw_delete_def)

lemma client_get_down: "\<not> reachable r \<Longrightarrow> client_get k r = None"
  by (simp add: client_get_def raw_get_def)

lemma client_get_up: "reachable r \<Longrightarrow> client_get k r = map_option fst (dict_get (store r) k)"
  by (simp add: client_get_def raw_get_def)


lemma sorted_zadd: "sorted z \<Longrightarrow> sorted (zadd member score z)"
  by (simp add: zadd_def sorted_insort sorted_wrt_filter)

lemma set_zadd: "set (zadd member score z) = insert (score, member) {e \<in> set z. snd e \<noteq> member}"
  by (auto simp: zadd_def set_insort_key)

lemma zremrangebyrank_tail:
  assumes "stop < 0"
  shows "zremrangebyrank 0 stop z = drop (nat (int (length z) + stop + 1)) z"
proof (cases "int (length z) + stop < 0")
  case True
  then show ?thesis
    using assms by (simp add: zremrangebyrank_def Let_def)
next
  case False
  have eq: "nat (int (length z) + stop) + 1 = nat (int (length z) + stop + 1)"
    using False by linarith
  have "zremrangebyrank 0 stop z = drop (nat (int (length z) + stop) + 1) z"
    using False assms by (simp add: zremrangebyrank_def Let_def min_def)
  then show ?thesis
    by (simp only: eq)
qed

lemma zremrangebyrank_trim: "zremrangebyrank 0 (- 5001) z = drop (length z - 5000) z"
proof -
  have "nat (int (length z) + (- 5001) + 1) = length z - 5000"
    by linarith
  then show ?thesis
    using zremrangebyrank_tail [of "- 5001" z] by simp
qed


lemma zrevrange_withscores_desc:
  "sorted z \<Longrightarrow> sorted_wrt (\<lambda>x y. y \<le> x) (zrevrange_withscores start stop z)"
proof -
  assume "sorted z"
  then have "sorted_wrt (\<lambda>x y. y \<le> x) (rev z)"
    by (simp add: sorted_wrt_rev)
  then have "sorted_wrt (\<lambda>x y. y \<le> x) (take a (drop b (rev z)))" for a b
    by (simp add: sorted_wrt_take sorted_wrt_drop)
  then show ?thesis
    by (simp add: zrevrange_withscores_def Let_def)
qed

lemma zrevrange_withscores_subset:
  "set (zrevrange_withscores start stop z) \<subseteq> set z"
proof -
  have "set (take a (drop b (rev z))) \<subseteq> set z" for a b
    by (metis in_set_dropD in_set_takeD set_rev subsetI)
  then show ?thesis
    by (simp add: zrevrange_withscores_def Let_def)
qed

section \<open>Theorems: saving an activity\<close>

lemma add_to_sorted_list_down: "\<not> reachable r \<Longrightarrow> add_to_sorted_list a r = r"
  by (simp add: add_to_sorted_list_def raw_zadd_def)

lemma add_to_sorted_list_up:
  assumes "reachable r"
  shows "sorted_global (add_to_sorted_list a r) =
           drop (length (zadd (item_id a) (ms_score (timestamp a)) (sorted_global r)) - 5000)
             (zadd (item_id a) (ms_score (timestamp a)) (sorted_global r))"
    and "store (add_to_sorted_list a r) = store r"
    and "reachable (add_to_sorted_list a r)"
proof -
  note trim = zremrangebyrank_trim max_activities_redis_def
  show "sorted_global (add_to_sorted_list a r) =
           drop (length (zadd (item_id a) (ms_score (timestamp a)) (sorted_global r)) - 5000)
             (zadd (item_id a) (ms_score (timestamp a)) (sorted_global r))"
    using assms
    by (simp add: add_to_sorted_list_def raw_zadd_def raw_zremrangebyrank_def raw_expire_def trim)
  show "store (add_to_sorted_list a r) = store r"
    using assms
    by (simp add: add_to_sorted_list_def raw_zadd_def raw_zremrangebyrank_def raw_expire_def)
  show "reachable (add_to_sorted_list a r)"
    using assms
    by (simp add: add_to_sorted_list_def raw_zadd_def raw_zremrangebyrank_def raw_expire_def)
qed

lemma save_activity_to_redis_down: "\<not> reachable r \<Longrightarrow> save_activity_to_redis a r = r"
  by (simp add: save_activity_to_redis_def client_set_down add_to_sorted_list_down)

lemma save_activity_to_redis_up:
  assumes "reachable r"
  shows "sorted_global (save_activity_to_redis a r) =
           drop (length (zadd (item_id a) (ms_score (timestamp a)) (sorted_global r)) - 5000)
             (zadd (item_id a) (ms_score (timestamp a)) (sorted_global r))"
    and "store (save_activity_to_redis a r) =
           dict_set (data_key (item_id a)) (RActivity a, Some activity_ttl) (store r)"
    and "reachable (save_activity_to_redis a r)"
  using assms
  by (simp_all add: save_activity_to_redis_def client_set_up add_to_sorted_list_up)

lemma save_activity_to_redis_reachable:
  "reachable (save_activity_to_redis a r) = reachable r"
  by (cases "reachable r") (simp_all add: save_activity_to_redis_down save_activity_to_redis_up)

lemma update_activity_stats_cases:
  "update_activity_stats a r = r \<or>
   (\<exists>d. update_activity_stats a r =
      snd (client_set ''activity:stats:global'' (RStats d) (Some activity_ttl) r))"
  unfolding update_activity_stats_def
  by (auto split: sum.splits option.splits rvalue.splits)

lemma update_activity_stats_frame:
  "sorted_global (update_activity_stats a r) = sorted_global r"
  "reachable (update_activity_stats a r) = reachable r"
  using update_activity_stats_cases [of a r] by (auto simp: client_set_frame)

lemma update_activity_stats_down: "\<not> reachable r \<Longrightarrow> update_activity_stats a r = r"
  using update_activity_stats_cases [of a r] by (auto simp: client_set_down)

lemma redis_remember: "redis (remember a m) = redis m"
  by (simp add: remember_def alloc_def Let_def)

lemma add_activity_result:
  "fst (add_activity activity_type ttl descr dets prio src uid sname link tgs areas score
          clock_ms hex8 now m) =
     Inr (item_id (new_activity activity_type ttl descr dets prio src uid sname link tgs areas
                     score clock_ms hex8 now))"
  by (simp add: add_activity_def Let_def)

lemma add_activity_redis:
  "redis (snd (add_activity activity_type ttl descr dets prio src uid sname link tgs areas score
                 clock_ms hex8 now m)) =
     update_activity_stats
       (new_activity activity_type ttl descr dets prio src uid sname link tgs areas score
          clock_ms hex8 now)
       (save_activity_to_redis
          (new_activity activity_type ttl descr dets prio src uid sname link tgs areas score
             clock_ms hex8 now)
          (redis m))"
  by (simp add: add_activity_def Let_def redis_remember)

section \<open>Theorems: the operations on the store\<close>

lemma data_key_inj: "(data_key i = data_key j) = (i = j)"
  by (simp add: data_key_def)

lemma data_key_not_stats: "data_key i \<noteq> ''activity:stats:global''"
  by (simp add: data_key_def)

lemma data_key_not_bookmark: "data_key i \<noteq> bookmark_key u e"
  by (simp add: data_key_def bookmark_key_def)

lemma payload_cong: "dict_get (store r') (data_key i) = dict_get (store r) (data_key i) \<Longrightarrow>
    payload r' i = payload r i"
  by (simp add: payload_def)

lemma payload_client_set:
  "data_key i \<noteq> k \<Longrightarrow> payload (snd (client_set k v e r)) i = payload r i"
  by (rule payload_cong) (simp add: client_set_store dict_get_dict_set)

lemma payload_client_delete:
  "data_key i \<noteq> k \<Longrightarrow> payload (snd (client_delete k r)) i = payload r i"
  by (rule payload_cong) (simp add: client_delete_store dict_get_dict_del)

lemma payload_save:
  "payload (save_activity_to_redis a r) i =
     (if reachable r \<and> i = item_id a then Some a else payload r i)"
proof (cases "reachable r")
  case True
  then show ?thesis
    by (simp add: payload_def save_activity_to_redis_up dict_get_dict_set data_key_inj)
next
  case False
  then show ?thesis by (simp add: save_activity_to_redis_down)
qed

lemma payload_update_activity_stats: "payload (update_activity_stats a r) i = payload r i"
  using update_activity_stats_cases [of a r] data_key_not_stats [of i]
  by (auto simp: payload_client_set)

lemma index_ok_save:
  assumes "index_ok r"
  shows "index_ok (save_activity_to_redis a r)"
proof (cases "reachable r")
  case False
  with assms show ?thesis by (simp add: save_activity_to_redis_down)
next
  case True
  have srt: "sorted (sorted_global (save_activity_to_redis a r))"
    using assms True
    by (simp add: index_ok_def save_activity_to_redis_up sorted_zadd sorted_wrt_drop)
  have "fst e = ms_score (timestamp b)"
    if e: "e \<in> set (sorted_global (save_activity_to_redis a r))"
      and b: "payload (save_activity_to_redis a r) (snd e) = Some b" for e b
  proof -
    from e True have "e \<in> set (zadd (item_id a) (ms_score (timestamp a)) (sorted_global r))"
      by (auto simp: save_activity_to_redis_up dest: in_set_dropD)
    then consider "e = (ms_score (timestamp a), item_id a)"
      | "e \<in> set (sorted_global r)" "snd e \<noteq> item_id a"
      by (auto simp: set_zadd)
    then show ?thesis
    proof cases
      case 1
      with b True show ?thesis by (simp add: payload_save)
    next
      case 2
      with b have "payload r (snd e) = Some b" by (simp add: payload_save)
      with 2 assms show ?thesis by (auto simp: index_ok_def)
    qed
  qed
  with srt show ?thesis by (auto simp: index_ok_def)
qed

lemma index_ok_payload_frame:
  assumes "index_ok r" "sorted_global r' = sorted_global r" "\<And>i. payload r' i = payload r i"
  shows "index_ok r'"
  using assms by (simp add: index_ok_def)

lemma index_ok_update_activity_stats: "index_ok r \<Longrightarrow> index_ok (update_activity_stats a r)"
  by (rule index_ok_payload_frame)
     (simp_all add: update_activity_stats_frame payload_update_activity_stats)

lemma get_activity_by_id_redis: "redis (snd (get_activity_by_id e m)) = redis m"
  by (simp add: get_activity_by_id_def alloc_def split: option.splits rvalue.splits)


lemma mark_activity_read_redis:
  "redis (snd (mark_activity_read e u m)) =
     (case fst (get_activity_by_id e m) of
        None \<Rightarrow> redis m
      | Some (ref, a) \<Rightarrow> save_activity_to_redis (a\<lparr>read := True\<rparr>) (redis m))"
  using get_activity_by_id_redis [of e m]
  by (cases "get_activity_by_id e m")
     (auto simp: mark_activity_read_def split: option.splits)

lemma bookmark_activity_redis:
  "redis (snd (bookmark_activity e u m)) =
     (case fst (get_activity_by_id e m) of
        None \<Rightarrow> redis m
      | Some (ref, a) \<Rightarrow>
          if client_exists (bookmark_key u e) (redis m)
          then snd (client_delete (bookmark_key u e) (redis m))
          else snd (client_set (bookmark_key u e) (RString (str_int (timestamp a)))
                      (Some activity_ttl) (redis m)))"
  using get_activity_by_id_redis [of e m]
  by (cases "get_activity_by_id e m")
     (auto simp: bookmark_activity_def split: option.splits)

lemma get_activities_redis:
  "redis (snd (get_activities limit offset tys prs srcs uid areas since incl m)) = redis m"
  by (simp add: get_activities_def Let_def)

lemma index_ok_bookmark: "index_ok (redis m) \<Longrightarrow> index_ok (redis (snd (bookmark_activity e u m)))"
proof -
  assume ok: "index_ok (redis m)"
  have *: "index_ok (snd (client_delete (bookmark_key u e) (redis m)))"
    using ok data_key_not_bookmark [of _ u e]
    by (intro index_ok_payload_frame [OF ok]) (auto simp: client_delete_frame payload_client_delete)
  have **: "index_ok (snd (client_set (bookmark_key u e) v ex (redis m)))" for v ex
    using ok data_key_not_bookmark [of _ u e]
    by (intro index_ok_payload_frame [OF ok]) (auto simp: client_set_frame payload_client_set)
  show ?thesis
    using ok * ** by (simp add: bookmark_activity_redis split: option.splits)
qed

lemma index_ok_outage: "index_ok r \<Longrightarrow> index_ok (r\<lparr>reachable := up\<rparr>)"
  by (simp add: index_ok_def payload_def)

lemma index_ok_empty: "index_ok (redis (empty_manager up))"
  by (simp add: index_ok_def empty_manager_def empty_redis_def)

lemma feed_state_index_ok: "feed_state m \<Longrightarrow> index_ok (redis m)"
proof (induction rule: feed_state.induct)
  case (start up)
  show ?case by (rule index_ok_empty)
next
  case (added m activity_type ttl descr dets prio src uid sname link tgs areas score clock_ms hex8 now)
  then show ?case
    by (simp add: add_activity_redis index_ok_save index_ok_update_activity_stats)
next
  case (marked m activity_id uid)
  then show ?case
    by (simp add: mark_activity_read_redis index_ok_save split: option.splits)
next
  case (bookmarked m activity_id uid)
  then show ?case by (simp add: index_ok_bookmark)
next
  case (listed m limit offset activity_types priorities sources uid areas since include_system)
  then show ?case by (simp add: get_activities_redis)
next
  case (outage m up)
  then show ?case by (simp add: index_ok_outage)
qed

section \<open>Theorems: appending\<close>

lemma str_int_1000: "str_int 1000 = ''1000''"
  by code_simp

text \<open>
  C1, as the code has it. When the server cannot be reached, \<^verbatim>\<open>add_activity\<close> does
  not fail: it returns the id of the new activity, keeps the activity in memory at the
  front of \<^verbatim>\<open>recent_activities\<close>, and leaves the store as it was. The failed writes
  are caught and logged inside \<^verbatim>\<open>RedisClient.set\<close> and \<^verbatim>\<open>_add_to_sorted_list\<close>.
\<close>

theorem add_activity_store_unreachable:
  assumes "\<not> reachable (redis m)"
  shows "fst (add_activity activity_type ttl descr dets prio src uid sname link tgs areas score
                clock_ms hex8 now m)
           = Inr (''activity_'' @ str_int clock_ms @ ''_'' @ hex8)
       \<and> redis (snd (add_activity activity_type ttl descr dets prio src uid sname link tgs areas
                        score clock_ms hex8 now m)) = redis m
       \<and> objects
            (heap (snd (add_activity activity_type ttl descr dets prio src uid sname link tgs areas
                          score clock_ms hex8 now m)))
            (take 1 (recent_activities
               (snd (add_activity activity_type ttl descr dets prio src uid sname link tgs areas
                       score clock_ms hex8 now m))))
           = [new_activity activity_type ttl descr dets prio src uid sname link tgs areas score
                clock_ms hex8 now]"
proof -
  have mem: "objects (heap (remember a m)) (take (Suc 0) (recent_activities (remember a m))) = [a]"
    for a
  proof -
    have "take (Suc 0) (butlast (x # xs)) = [x]" if "xs \<noteq> []" for x :: nat and xs
      using that by (cases xs) simp_all
    then show ?thesis
      by (auto simp: remember_def alloc_def Let_def objects_def deref_def map_filter_simps
          max_activities_def)
  qed
  show ?thesis
    using assms
    by (simp add: add_activity_result add_activity_redis save_activity_to_redis_down
        update_activity_stats_down)
       (simp add: add_activity_def Let_def mem new_activity_def)
qed

theorem add_activity_store_unreachable_witness:
  "\<not> reachable (redis (empty_manager False)) \<and>
   fst (add_activity SYSTEM_UPDATE ''t'' ''d'' None NORMAL SYSTEM None None None None None 0
          1000 ''0a1b2c3d'' 1000000 (empty_manager False))
     = Inr (''activity_'' @ str_int 1000 @ ''_'' @ ''0a1b2c3d'')"
proof -
  have down: "\<not> reachable (redis (empty_manager False))"
    by (simp add: empty_manager_def empty_redis_def)
  show ?thesis
    using down add_activity_store_unreachable [OF down, of SYSTEM_UPDATE "''t''" "''d''" None
        NORMAL SYSTEM None None None None None 0 1000 "''0a1b2c3d''" 1000000]
    by simp
qed

text \<open>
  C1, as stated, fails: with the server unreachable an append returns a new id although
  neither the payload nor the index entry was written.
\<close>

theorem add_activity_failure_not_surfaced:
  "\<not> reachable (redis (empty_manager False)) \<and>
   fst (add_activity SYSTEM_UPDATE ''t'' ''d'' None NORMAL SYSTEM None None None None None 0
          1000 ''0a1b2c3d'' 1000000 (empty_manager False))
     = Inr ''activity_1000_0a1b2c3d'' \<and>
   payload (redis (snd (add_activity SYSTEM_UPDATE ''t'' ''d'' None NORMAL SYSTEM None None None
                          None None 0 1000 ''0a1b2c3d'' 1000000 (empty_manager False))))
     ''activity_1000_0a1b2c3d'' = None \<and>
   sorted_global (redis (snd (add_activity SYSTEM_UPDATE ''t'' ''d'' None NORMAL SYSTEM None None
                                None None None 0 1000 ''0a1b2c3d'' 1000000 (empty_manager False))))
     = []"
proof -
  have down: "\<not> reachable (redis (empty_manager False))"
    by (simp add: empty_manager_def empty_redis_def)
  have id: "''activity_'' @ str_int 1000 @ ''_'' @ ''0a1b2c3d'' = ''activity_1000_0a1b2c3d''"
    by (simp add: str_int_1000)
  show ?thesis
    using down
    by (simp add: add_activity_result add_activity_redis save_activity_to_redis_down
        update_activity_stats_down new_activity_def id)
       (simp add: empty_manager_def empty_redis_def payload_def dict_get_def str_int_1000)
qed



section \<open>Theorems: the order of the index\<close>

text \<open>
  C3, as the code has it. In every state of the feed, the ids that
  \<^verbatim>\<open>ZREVRANGE 0 N\<close> returns are in non-increasing order of the pair of the
  millisecond score and the id, where the score of an id is the creation time of its
  stored payload in whole milliseconds. Two activities created within the same
  millisecond are ordered by their ids alone.
\<close>

theorem range_order_by_ms_score:
  assumes "feed_state m"
  shows "sorted_wrt
           (\<lambda>i j. \<forall>a b. payload (redis m) i = Some a \<and> payload (redis m) j = Some b \<longrightarrow>
                      (ms_score (timestamp b), j) \<le> (ms_score (timestamp a), i))
           (zrevrange 0 N (sorted_global (redis m)))"
proof -
  have ok: "index_ok (redis m)" by (rule feed_state_index_ok [OF assms])
  then have desc: "sorted_wrt (\<lambda>x y. y \<le> x) (zrevrange_withscores 0 N (sorted_global (redis m)))"
    by (simp add: index_ok_def zrevrange_withscores_desc)
  have sc: "fst e = ms_score (timestamp a)"
    if "e \<in> set (zrevrange_withscores 0 N (sorted_global (redis m)))"
       "payload (redis m) (snd e) = Some a" for e a
    using that ok zrevrange_withscores_subset [of 0 N "sorted_global (redis m)"]
    by (auto simp: index_ok_def)
  have "sorted_wrt
          (\<lambda>x y. \<forall>a b. payload (redis m) (snd x) = Some a \<and> payload (redis m) (snd y) = Some b \<longrightarrow>
                     (ms_score (timestamp b), snd y) \<le> (ms_score (timestamp a), snd x))
          (zrevrange_withscores 0 N (sorted_global (redis m)))"
  proof (rule sorted_wrt_mono_rel [OF _ desc])
    fix x y
    assume x: "x \<in> set (zrevrange_withscores 0 N (sorted_global (redis m)))"
      and y: "y \<in> set (zrevrange_withscores 0 N (sorted_global (redis m)))"
      and le: "y \<le> x"
    show "\<forall>a b. payload (redis m) (snd x) = Some a \<and> payload (redis m) (snd y) = Some b \<longrightarrow>
                 (ms_score (timestamp b), snd y) \<le> (ms_score (timestamp a), snd x)"
    proof (intro allI impI)
      fix a b
      assume "payload (redis m) (snd x) = Some a \<and> payload (redis m) (snd y) = Some b"
      then have "fst x = ms_score (timestamp a)" "fst y = ms_score (timestamp b)"
        using sc [OF x] sc [OF y] by auto
      with le show "(ms_score (timestamp b), snd y) \<le> (ms_score (timestamp a), snd x)"
        by (metis prod.collapse)
    qed
  qed
  then show ?thesis
    by (simp add: zrevrange_def sorted_wrt_map)
qed

lemma feed_state_same_ms_feed: "feed_state same_ms_feed"
  unfolding same_ms_feed_def by (intro feed_state.added feed_state.start)

theorem range_order_by_ms_score_witness:
  "feed_state same_ms_feed \<and>
   sorted_wrt
     (\<lambda>i j. \<forall>a b. payload (redis same_ms_feed) i = Some a \<and> payload (redis same_ms_feed) j = Some b \<longrightarrow>
                (ms_score (timestamp b), j) \<le> (ms_score (timestamp a), i))
     (zrevrange 0 10 (sorted_global (redis same_ms_feed)))"
  using range_order_by_ms_score [OF feed_state_same_ms_feed, of 10] feed_state_same_ms_feed
  by simp

lemmas eval_defs =
  add_activity_def new_activity_def remember_def alloc_def Let_def save_activity_to_redis_def
  client_set_def raw_set_def add_to_sorted_list_def raw_zadd_def raw_zremrangebyrank_def
  zremrangebyrank_def raw_expire_def update_activity_stats_def client_get_def raw_get_def
  counter_incr_def dict_get_def dict_set_def dict_has_def dict_del_def zadd_def ms_score_def
  max_activities_def max_activities_redis_def activity_ttl_def data_key_def empty_manager_def
  empty_redis_def str_int_1000 given_def payload_def

lemma same_ms_feed_index:
  "sorted_global (redis same_ms_feed) =
     [(1000, ''activity_1000_aaaaaaaa''), (1000, ''activity_1000_bbbbbbbb'')]"
  unfolding same_ms_feed_def by (simp add: eval_defs)

lemma same_ms_feed_payloads:
  "map_option timestamp (payload (redis same_ms_feed) ''activity_1000_bbbbbbbb'') = Some 1000100"
  "map_option timestamp (payload (redis same_ms_feed) ''activity_1000_aaaaaaaa'') = Some 1000200"
  unfolding same_ms_feed_def by (simp_all add: eval_defs)

text \<open>
  C3, as stated, fails. Of two activities appended within the same millisecond, the
  index returns first the one with the greater id, although it was created earlier: the
  ids come back in increasing, not non-increasing, order of (created_at, id).
\<close>

theorem range_not_by_created_at:
  "zrevrange 0 10 (sorted_global (redis same_ms_feed))
     = [''activity_1000_bbbbbbbb'', ''activity_1000_aaaaaaaa''] \<and>
   map_option timestamp (payload (redis same_ms_feed) ''activity_1000_bbbbbbbb'') = Some 1000100 \<and>
   map_option timestamp (payload (redis same_ms_feed) ''activity_1000_aaaaaaaa'') = Some 1000200 \<and>
   \<not> ((1000200 :: int, ''activity_1000_aaaaaaaa'') \<le> (1000100, ''activity_1000_bbbbbbbb''))"
  by (simp add: same_ms_feed_index same_ms_feed_payloads zrevrange_def zrevrange_withscores_def)

section \<open>Theorems: bookmarks and the read flag\<close>





lemma one_item_feed_eval:
  "reachable (redis one_item_feed)"
  "activity_cache one_item_feed = [(''activity_1000_bbbbbbbb'', 0)]"
  "recent_activities one_item_feed = [0]"
  "heap one_item_feed =
     [new_activity SYSTEM_UPDATE ''release'' ''d'' None NORMAL SYSTEM None None None None None 0
        1000 ''bbbbbbbb'' 1000100]"
  unfolding one_item_feed_def
  by (simp_all add: add_activity_redis update_activity_stats_frame save_activity_to_redis_reachable)
     (simp_all add: eval_defs)



lemma map_fst_dict_set:
  "map fst (dict_set k v d) = (if dict_has d k then map fst d else map fst d @ [k])"
  by (induction d) (auto simp: dict_set_def)

lemma dict_has_keys: "dict_has d k = (k \<in> set (map fst d))"
  by (simp add: dict_has_def map_of_eq_None_iff)

lemma one_item_feed_keys:
  "map fst (store (redis one_item_feed)) =
     [''activity:data:activity_1000_bbbbbbbb'', ''activity:stats:global'']"
  unfolding one_item_feed_def by (simp add: eval_defs)

lemma one_item_feed_payload:
  "payload (redis one_item_feed) ''activity_1000_bbbbbbbb'' =
     Some (new_activity SYSTEM_UPDATE ''release'' ''d'' None NORMAL SYSTEM None None None None
             None 0 1000 ''bbbbbbbb'' 1000100)"
  unfolding one_item_feed_def
  by (simp add: add_activity_redis payload_update_activity_stats payload_save)
     (simp add: eval_defs)

lemma read_by_alice_eval:
  "recent_activities read_by_alice = [0]"
  "heap read_by_alice =
     [(new_activity SYSTEM_UPDATE ''release'' ''d'' None NORMAL SYSTEM None None None None None 0
        1000 ''bbbbbbbb'' 1000100)\<lparr>read := True\<rparr>]"
  "redis read_by_alice =
     save_activity_to_redis
       ((new_activity SYSTEM_UPDATE ''release'' ''d'' None NORMAL SYSTEM None None None None None 0
           1000 ''bbbbbbbb'' 1000100)\<lparr>read := True\<rparr>) (redis one_item_feed)"
proof -
  have g: "get_activity_by_id ''activity_1000_bbbbbbbb'' one_item_feed =
      (Some (0, new_activity SYSTEM_UPDATE ''release'' ''d'' None NORMAL SYSTEM None None None None
                  None 0 1000 ''bbbbbbbb'' 1000100), one_item_feed)"
    by (simp add: get_activity_by_id_def one_item_feed_eval dict_get_def deref_def)
  show "recent_activities read_by_alice = [0]"
    by (simp add: read_by_alice_def mark_activity_read_def g one_item_feed_eval)
  show "heap read_by_alice =
     [(new_activity SYSTEM_UPDATE ''release'' ''d'' None NORMAL SYSTEM None None None None None 0
        1000 ''bbbbbbbb'' 1000100)\<lparr>read := True\<rparr>]"
    by (simp add: read_by_alice_def mark_activity_read_def g one_item_feed_eval heap_modify_def)
  show "redis read_by_alice =
     save_activity_to_redis
       ((new_activity SYSTEM_UPDATE ''release'' ''d'' None NORMAL SYSTEM None None None None None 0
           1000 ''bbbbbbbb'' 1000100)\<lparr>read := True\<rparr>) (redis one_item_feed)"
    by (simp add: read_by_alice_def mark_activity_read_def g)
qed

lemma no_bookmarks_of_bob:
  "get_user_bookmarked_ids ''bob'' (redis one_item_feed) = []"
  "get_user_bookmarked_ids ''bob'' (redis read_by_alice) = []"
proof -
  show "get_user_bookmarked_ids ''bob'' (redis one_item_feed) = []"
    by (simp add: get_user_bookmarked_ids_def raw_keys_def one_item_feed_eval one_item_feed_keys)
  have "map fst (store (redis read_by_alice)) =
     [''activity:data:activity_1000_bbbbbbbb'', ''activity:stats:global'']"
    by (simp add: read_by_alice_eval save_activity_to_redis_up one_item_feed_eval
        map_fst_dict_set dict_has_keys one_item_feed_keys new_activity_def str_int_1000
        data_key_def)
  then show "get_user_bookmarked_ids ''bob'' (redis read_by_alice) = []"
    by (simp add: get_user_bookmarked_ids_def raw_keys_def read_by_alice_eval
        save_activity_to_redis_reachable one_item_feed_eval)
qed

text \<open>
  C2 on the code. \<^verbatim>\<open>mark_activity_read\<close> does not use its \<^verbatim>\<open>user_id\<close>: it sets the
  \<^verbatim>\<open>read\<close> field of the shared record and stores the record again. After alice has
  marked the one activity of the feed as read, the list that bob gets shows it as read,
  and so does the stored payload.
\<close>

theorem mark_activity_read_is_global:
  "mark_activity_read ''activity_1000_bbbbbbbb'' ''alice'' one_item_feed
     = mark_activity_read ''activity_1000_bbbbbbbb'' ''bob'' one_item_feed \<and>
   map read (fst (get_activities 1 0 None None None (Some ''bob'') None None True one_item_feed))
     = [False] \<and>
   map read (fst (get_activities 1 0 None None None (Some ''bob'') None None True read_by_alice))
     = [True] \<and>
   map_option read (payload (redis read_by_alice) ''activity_1000_bbbbbbbb'') = Some True"
proof -
  have a: "mark_activity_read ''activity_1000_bbbbbbbb'' ''alice'' one_item_feed
     = mark_activity_read ''activity_1000_bbbbbbbb'' ''bob'' one_item_feed"
    by (simp add: mark_activity_read_def)
  have b: "map read (fst (get_activities 1 0 None None None (Some ''bob'') None None True
             one_item_feed)) = [False]"
    by (simp add: get_activities_def one_item_feed_eval no_bookmarks_of_bob Let_def deref_def
        filter_activities_char given_def new_activity_def heap_modify_def objects_def
        map_filter_simps)
  have c: "map read (fst (get_activities 1 0 None None None (Some ''bob'') None None True
             read_by_alice)) = [True]"
    by (simp add: get_activities_def read_by_alice_eval(1,2) no_bookmarks_of_bob Let_def deref_def
        filter_activities_char given_def new_activity_def heap_modify_def objects_def
        map_filter_simps)
  have d: "map_option read (payload (redis read_by_alice) ''activity_1000_bbbbbbbb'') = Some True"
    by (simp add: read_by_alice_eval(3) payload_save one_item_feed_eval new_activity_def
        str_int_1000)
  from a b c d show ?thesis by simp
qed

section \<open>Theorems: broadcast to a topic\<close>

lemma given_discard_member:
  "given (dict_get (discard_member cid key d) key') =
     (if key' = key then set_discard cid (given (dict_get d key')) else given (dict_get d key'))"
  by (auto simp: discard_member_def given_def dict_get_dict_set dict_get_dict_del set_discard_def
      split: option.splits)

lemma set_discard_idem: "set_discard x (set_discard x xs) = set_discard x xs"
  by (simp add: set_discard_def)

lemma given_fold_discard_member:
  "given (dict_get (fold (discard_member cid) keys d) key') =
     (if key' \<in> set keys then set_discard cid (given (dict_get d key'))
      else given (dict_get d key'))"
  by (induction keys arbitrary: d) (auto simp: given_discard_member set_discard_idem)

lemma disconnect_wire: "disconnect k (s\<lparr>wire := w\<rparr>) = (disconnect k s)\<lparr>wire := w\<rparr>"
  by (simp add: disconnect_def split: option.splits)

lemma disconnect_connections:
  "dict_get (connections (disconnect k s)) c =
     (if c = k then None else dict_get (connections s) c)"
  by (cases "dict_get (connections s) k") (auto simp: disconnect_def dict_get_dict_del)

lemma disconnect_members:
  assumes "dict_get (connections s) k = Some ck"
  shows "members_of (disconnect k s) t =
     (if t \<in> set (conn_subscriptions ck) then set_discard k (members_of s t) else members_of s t)"
  using assms by (simp add: disconnect_def members_of_def given_fold_discard_member)

lemma disconnect_user_connections:
  assumes "dict_get (connections s) k = Some ck"
  shows "connections_of (disconnect k s) u =
     (if ws_user_id ck = Some u \<and> u \<noteq> [] then set_discard k (connections_of s u)
      else connections_of s u)"
  using assms
  by (auto simp: disconnect_def connections_of_def given_discard_member split: option.splits)

lemma send_to_connection_alive:
  assumes "dict_get (connections s) c = Some conn" "websocket conn = Alive"
  shows "send_to_connection c msg now s =
           (True, s\<lparr>wire := wire s @ [Delivered c (enhanced_message msg c now)]\<rparr>)"
  using assms by (simp add: send_to_connection_def)

lemma send_to_connection_broken:
  assumes "dict_get (connections s) c = Some conn" "websocket conn = Broken"
  shows "send_to_connection c msg now s = (False, (disconnect c s)\<lparr>wire := wire s @ [Failed c]\<rparr>)"
  using assms by (simp add: send_to_connection_def disconnect_wire)

lemma send_each_alive:
  assumes "\<forall>c \<in> set cids. \<exists>conn. dict_get (connections s) c = Some conn \<and> websocket conn = Alive"
  shows "send_each cids msg now (n, s) =
           (n + length cids,
            s\<lparr>wire := wire s @ map (\<lambda>c. Delivered c (enhanced_message msg c now)) cids\<rparr>)"
  using assms
proof (induction cids arbitrary: n s)
  case Nil
  show ?case by simp
next
  case (Cons c cids)
  from Cons.prems obtain conn where
    c: "dict_get (connections s) c = Some conn" "websocket conn = Alive"
    by auto
  have rest: "\<forall>x \<in> set cids. \<exists>conn.
      dict_get (connections (s\<lparr>wire := wire s @ [Delivered c (enhanced_message msg c now)]\<rparr>)) x
        = Some conn \<and> websocket conn = Alive"
    using Cons.prems by simp
  show ?case
    by (simp add: send_to_connection_alive [OF c] Cons.IH [OF rest])
qed

lemma send_each_append:
  "send_each (xs @ ys) msg now (n, s) = send_each ys msg now (send_each xs msg now (n, s))"
proof (induction xs arbitrary: n s)
  case Nil
  show ?case by simp
next
  case (Cons x xs)
  show ?case
    by (cases "send_to_connection x msg now s") (auto simp: Cons.IH split: bool.splits)
qed

text \<open>
  The whole loop, when one member has a broken transport: the state afterwards is the
  state with that member disconnected, and the trace grows by one entry per member, in
  the order of the snapshot.
\<close>

lemma send_each_one_broken:
  assumes dist: "distinct cids" and k: "k \<in> set cids"
    and kb: "dict_get (connections s) k = Some ck" "websocket ck = Broken"
    and alive: "\<forall>c \<in> set cids. c \<noteq> k \<longrightarrow>
                  (\<exists>conn. dict_get (connections s) c = Some conn \<and> websocket conn = Alive)"
  shows "send_each cids msg now (0, s) =
           (length cids - 1,
            (disconnect k s)\<lparr>wire := wire s @
               map (\<lambda>c. if c = k then Failed k else Delivered c (enhanced_message msg c now)) cids\<rparr>)"
proof -
  from k obtain pre post where split: "cids = pre @ k # post"
    by (auto dest: split_list)
  with dist have notin: "k \<notin> set pre" "k \<notin> set post" by auto
  have pre_alive: "\<forall>c \<in> set pre. \<exists>conn. dict_get (connections s) c = Some conn \<and> websocket conn = Alive"
    using alive notin split by auto
  define W where "W = wire s @ map (\<lambda>c. Delivered c (enhanced_message msg c now)) pre"
  have s1: "send_each pre msg now (0, s) = (length pre, s\<lparr>wire := W\<rparr>)"
    using send_each_alive [OF pre_alive, of msg now 0] by (simp add: W_def)
  have s2: "send_to_connection k msg now (s\<lparr>wire := W\<rparr>) =
      (False, (disconnect k s)\<lparr>wire := W @ [Failed k]\<rparr>)"
    using send_to_connection_broken [of "s\<lparr>wire := W\<rparr>" k ck msg now] kb
    by (simp add: disconnect_wire)
  have post_alive: "\<forall>c \<in> set post. \<exists>conn.
      dict_get (connections ((disconnect k s)\<lparr>wire := W @ [Failed k]\<rparr>)) c = Some conn
        \<and> websocket conn = Alive"
    using alive notin split by (auto simp: disconnect_connections)
  have s3: "send_each post msg now (length pre, (disconnect k s)\<lparr>wire := W @ [Failed k]\<rparr>) =
      (length pre + length post,
       (disconnect k s)\<lparr>wire := (W @ [Failed k]) @
          map (\<lambda>c. Delivered c (enhanced_message msg c now)) post\<rparr>)"
    using send_each_alive [OF post_alive, of msg now "length pre"] by simp
  have m': "wire s @ map (\<lambda>c. if c = k then Failed k else Delivered c (enhanced_message msg c now))
             (pre @ k # post) =
      (W @ [Failed k]) @ map (\<lambda>c. Delivered c (enhanced_message msg c now)) post"
    using notin by (auto simp: W_def)
  have "send_each (pre @ k # post) msg now (0, s) =
      send_each (k # post) msg now (length pre, s\<lparr>wire := W\<rparr>)"
    by (simp add: send_each_append s1)
  also have "\<dots> = send_each post msg now (length pre, (disconnect k s)\<lparr>wire := W @ [Failed k]\<rparr>)"
    by (simp add: s2)
  also have "\<dots> = (length pre + length post,
       (disconnect k s)\<lparr>wire := (W @ [Failed k]) @
          map (\<lambda>c. Delivered c (enhanced_message msg c now)) post\<rparr>)"
    by (rule s3)
  finally show ?thesis
    unfolding split m' by simp
qed

lemma disconnect_members_set:
  assumes ok: "registry_ok s" and kc: "dict_get (connections s) k = Some ck"
  shows "set (members_of (disconnect k s) t) = set (members_of s t) - {k}"
proof (cases "t \<in> set (conn_subscriptions ck)")
  case True
  then show ?thesis
    by (auto simp: disconnect_members [OF kc] set_discard_def)
next
  case False
  have "k \<notin> set (members_of s t)"
  proof
    assume "k \<in> set (members_of s t)"
    with ok obtain conn where "dict_get (connections s) k = Some conn"
      "t \<in> set (conn_subscriptions conn)"
      unfolding registry_ok_def by blast
    with kc False show False by simp
  qed
  with False show ?thesis by (simp add: disconnect_members [OF kc])
qed

lemma disconnect_user_connections_set:
  assumes ok: "registry_ok s" and kc: "dict_get (connections s) k = Some ck"
  shows "k \<notin> set (connections_of (disconnect k s) u)"
proof (cases "ws_user_id ck = Some u \<and> u \<noteq> []")
  case True
  then show ?thesis
    by (simp add: disconnect_user_connections [OF kc] set_discard_def)
next
  case False
  have "k \<notin> set (connections_of s u)"
  proof
    assume "k \<in> set (connections_of s u)"
    with ok obtain conn where "dict_get (connections s) k = Some conn"
      "ws_user_id conn = Some u" "u \<noteq> []"
      unfolding registry_ok_def by blast
    with kc False show False by simp
  qed
  with False show ?thesis by (auto simp: disconnect_user_connections [OF kc])
qed

text \<open>
  C4. One message is broadcast to the members of a topic, of which exactly one, \<open>k\<close>,
  fails on send. The count returned is the number of the other members; the trace
  grows by exactly one entry per member, a delivery of the message for each member
  other than \<open>k\<close> and one failed send for \<open>k\<close> (so nothing is sent twice and the
  failure stops no later delivery); afterwards \<open>k\<close>, and no other connection, is gone
  from the connections, from the members of every topic and from the connections of
  every user.
\<close>

theorem broadcast_to_topic_one_failure:
  assumes "registry_ok s"
    and "dict_get (subscriptions s) topic = Some members"
    and "k \<in> set members"
    and "dict_get (connections s) k = Some ck" and "websocket ck = Broken"
    and "\<forall>c \<in> set members. c \<noteq> k \<longrightarrow>
           (\<exists>conn. dict_get (connections s) c = Some conn \<and> websocket conn = Alive)"
  shows "fst (broadcast_to_topic topic msg now s) = length members - 1
       \<and> wire (snd (broadcast_to_topic topic msg now s)) =
           wire s @ map (\<lambda>c. if c = k then Failed k
                              else Delivered c (enhanced_message msg c now)) members
       \<and> distinct members
       \<and> (\<forall>c. dict_get (connections (snd (broadcast_to_topic topic msg now s))) c =
                (if c = k then None else dict_get (connections s) c))
       \<and> (\<forall>t. set (members_of (snd (broadcast_to_topic topic msg now s)) t) =
                set (members_of s t) - {k})
       \<and> (\<forall>u. k \<notin> set (connections_of (snd (broadcast_to_topic topic msg now s)) u))"
proof -
  have dist: "distinct members"
    using assms(1,2) unfolding registry_ok_def members_of_def
    by (metis given_def option.simps(5))
  have b: "broadcast_to_topic topic msg now s =
      (length members - 1,
       (disconnect k s)\<lparr>wire := wire s @
          map (\<lambda>c. if c = k then Failed k else Delivered c (enhanced_message msg c now)) members\<rparr>)"
    using send_each_one_broken [OF dist assms(3,4,5,6), of msg now]
    by (simp add: broadcast_to_topic_def assms(2))
  have m: "members_of (x\<lparr>wire := w\<rparr>) t = members_of x t"
    "connections_of (x\<lparr>wire := w\<rparr>) u = connections_of x u" for x w t u
    by (simp_all add: members_of_def connections_of_def)
  show ?thesis
    using dist
    by (simp add: b m disconnect_connections disconnect_members_set [OF assms(1,4)]
        disconnect_user_connections_set [OF assms(1,4)])
qed

lemma registry_ok_three_subscribers: "registry_ok three_subscribers"
  by (auto simp: registry_ok_def three_subscribers_def members_of_def connections_of_def
      dict_get_def given_def sample_connection_def)

theorem broadcast_to_topic_one_failure_witness:
  "registry_ok three_subscribers
   \<and> dict_get (subscriptions three_subscribers) ''activity_feed'' = Some [''c1'', ''c2'', ''c3'']
   \<and> dict_get (connections three_subscribers) ''c2'' = Some (sample_connection ''c2'' Broken)
   \<and> fst (broadcast_to_topic ''activity_feed'' [(''type'', JStr ''new_activity'')] 5
             three_subscribers) = 2
   \<and> wire (snd (broadcast_to_topic ''activity_feed'' [(''type'', JStr ''new_activity'')] 5
                   three_subscribers))
       = [Delivered ''c1'' (enhanced_message [(''type'', JStr ''new_activity'')] ''c1'' 5),
          Failed ''c2'',
          Delivered ''c3'' (enhanced_message [(''type'', JStr ''new_activity'')] ''c3'' 5)]
   \<and> dict_get (connections (snd (broadcast_to_topic ''activity_feed''
                  [(''type'', JStr ''new_activity'')] 5 three_subscribers))) ''c2'' = None
   \<and> set (members_of (snd (broadcast_to_topic ''activity_feed''
              [(''type'', JStr ''new_activity'')] 5 three_subscribers)) ''activity_feed'')
       = {''c1'', ''c3''}"
proof -
  have subs: "dict_get (subscriptions three_subscribers) ''activity_feed''
                = Some [''c1'', ''c2'', ''c3'']"
    by (simp add: three_subscribers_def dict_get_def)
  have k: "''c2'' \<in> set [''c1'', ''c2'', ''c3'']" by simp
  have ck: "dict_get (connections three_subscribers) ''c2'' = Some (sample_connection ''c2'' Broken)"
    by (simp add: three_subscribers_def dict_get_def)
  have br: "websocket (sample_connection ''c2'' Broken) = Broken"
    by (simp add: sample_connection_def)
  have al: "\<forall>c \<in> set [''c1'', ''c2'', ''c3'']. c \<noteq> ''c2'' \<longrightarrow>
      (\<exists>conn. dict_get (connections three_subscribers) c = Some conn \<and> websocket conn = Alive)"
    by (simp add: three_subscribers_def dict_get_def sample_connection_def)
  have w: "wire three_subscribers = []"
    by (simp add: three_subscribers_def)
  have mem: "set (members_of three_subscribers ''activity_feed'') = {''c1'', ''c2'', ''c3''}"
    by (simp add: members_of_def subs given_def)
  have "{''c1'', ''c2'', ''c3''} - {''c2''} = {''c1'', ''c3''}" by auto
  with mem have mem': "set (members_of three_subscribers ''activity_feed'') - {''c2''}
      = {''c1'', ''c3''}" by simp
  show ?thesis
    using broadcast_to_topic_one_failure [OF registry_ok_three_subscribers subs k ck br al,
        of "[(''type'', JStr ''new_activity'')]" 5]
      registry_ok_three_subscribers subs ck mem' w
    by simp
qed

text \<open>
  The registry invariant holds in the empty manager and is kept by \<^verbatim>\<open>subscribe\<close> and
  by \<^verbatim>\<open>disconnect\<close>.
\<close>

lemma registry_ok_disconnect:
  assumes "registry_ok s"
  shows "registry_ok (disconnect k s)"
proof (cases "dict_get (connections s) k")
  case None
  with assms show ?thesis by (simp add: disconnect_def)
next
  case (Some ck)
  have topics: "distinct (members_of (disconnect k s) t) \<and>
      (\<forall>c \<in> set (members_of (disconnect k s) t).
         \<exists>conn. dict_get (connections (disconnect k s)) c = Some conn
                \<and> t \<in> set (conn_subscriptions conn))" for t
  proof -
    have d: "distinct (members_of (disconnect k s) t)"
      using assms by (simp add: disconnect_members [OF Some] registry_ok_def set_discard_def)
    have "set (members_of (disconnect k s) t) = set (members_of s t) - {k}"
      by (rule disconnect_members_set [OF assms Some])
    then show ?thesis
      using assms d unfolding registry_ok_def by (auto simp: disconnect_connections)
  qed
  have users: "\<forall>c \<in> set (connections_of (disconnect k s) u).
         \<exists>conn. dict_get (connections (disconnect k s)) c = Some conn
                \<and> ws_user_id conn = Some u \<and> u \<noteq> []" for u
  proof
    fix c assume c: "c \<in> set (connections_of (disconnect k s) u)"
    then have "c \<noteq> k"
      using disconnect_user_connections_set [OF assms Some, of u] by auto
    moreover have "c \<in> set (connections_of s u)"
      using c by (auto simp: disconnect_user_connections [OF Some] set_discard_def split: if_splits)
    ultimately show "\<exists>conn. dict_get (connections (disconnect k s)) c = Some conn
                \<and> ws_user_id conn = Some u \<and> u \<noteq> []"
      using assms unfolding registry_ok_def by (auto simp: disconnect_connections)
  qed
  from topics users show ?thesis unfolding registry_ok_def by blast
qed

section \<open>Theorems: replay and live delivery\<close>

























section \<open>Theorems: the registry invariant\<close>

lemma registry_ok_subscribe:
  assumes ok: "registry_ok s"
  shows "registry_ok (snd (subscribe cid topic s))"
proof (cases "dict_get (connections s) cid")
  case None
  with ok show ?thesis by (simp add: subscribe_def)
next
  case (Some conn)
  define s' where "s' = snd (subscribe cid topic s)"
  have m: "members_of s' t =
      (if t = topic then set_add cid (members_of s topic) else members_of s t)" for t
    using Some by (simp add: s'_def subscribe_def members_of_def dict_get_dict_set given_def)
  have c: "dict_get (connections s') x =
      (if x = cid
       then Some (conn\<lparr>conn_subscriptions := set_add topic (conn_subscriptions conn)\<rparr>)
       else dict_get (connections s) x)" for x
    using Some by (simp add: s'_def subscribe_def dict_get_dict_set)
  have u: "connections_of s' x = connections_of s x" for x
    using Some by (simp add: s'_def subscribe_def connections_of_def)
  have topics: "distinct (members_of s' t) \<and>
      (\<forall>x \<in> set (members_of s' t).
         \<exists>cn. dict_get (connections s') x = Some cn \<and> t \<in> set (conn_subscriptions cn))" for t
    using ok Some unfolding registry_ok_def m c
    by (auto simp: set_add_def) (metis option.inject)
  have users: "\<forall>x \<in> set (connections_of s' w).
      \<exists>cn. dict_get (connections s') x = Some cn \<and> ws_user_id cn = Some w \<and> w \<noteq> []" for w
    using ok Some unfolding registry_ok_def u c
    by auto (metis option.inject)
  from topics users show ?thesis
    unfolding registry_ok_def s'_def by blast
qed

lemma registry_ok_send_to_connection:
  assumes "registry_ok s"
  shows "registry_ok (snd (send_to_connection cid msg now s))"
proof -
  have w: "registry_ok (x\<lparr>wire := v\<rparr>) = registry_ok x" for x v
    by (simp add: registry_ok_def members_of_def connections_of_def)
  show ?thesis
    using assms registry_ok_disconnect [of s cid]
    by (auto simp: send_to_connection_def w disconnect_wire split: option.splits transport.splits)
qed

end
